theory Spec2Isabelle
  imports Main "HOL-Library.Word" "HOL-Library.Char_ord" "HOL-Library.List_Lexorder"
begin

section \<open>Data model of the blob client\<close>

subsection \<open>Errors (error.go)\<close>

text \<open>The Go struct \<^verbatim>\<open>Error{Msg, Code}\<close>.\<close>

record Error =
  Msg :: string
  Code :: string

text \<open>
  A Go \<^verbatim>\<open>error\<close> value returned by the client: an \<^verbatim>\<open>Error\<close> of the package's taxonomy,
  an error of \<^verbatim>\<open>encoding/json\<close>, an error of the HTTP transport, an error of the
  body reader, or an error of \<^verbatim>\<open>http.NewRequestWithContext\<close>.
\<close>

datatype io_err = EOF | ErrUnexpectedEOF | ReadFailure string

datatype err =
    ApiError Error
  | DecodeError string
  | TransportError string
  | ReadError io_err
  | RequestError string

text \<open>\<^verbatim>\<open>strconv.Itoa\<close> and the \<^verbatim>\<open>%d\<close> verb: the decimal digits of an integer.\<close>

definition digit :: "nat \<Rightarrow> char" where
  "digit n = ''0123456789'' ! n"

fun utoa :: "nat \<Rightarrow> string" where
  "utoa n = (if n < 10 then [digit n] else utoa (n div 10) @ [digit (n mod 10)])"

declare utoa.simps [simp del]

definition Itoa :: "int \<Rightarrow> string" where
  "Itoa i = (if i < 0 then CHR ''-'' # utoa (nat (- i)) else utoa (nat i))"

definition ErrNotAuthenticated :: Error where
  "ErrNotAuthenticated =
     \<lparr>Msg = ''No authentication token. Expected environment variable BLOB_READ_WRITE_TOKEN to contain a token'',
      Code = ''not_authenticated''\<rparr>"

definition ErrBadRequest :: "string \<Rightarrow> Error" where
  "ErrBadRequest msg = \<lparr>Msg = ''Invalid request: '' @ msg, Code = ''bad_request''\<rparr>"

definition ErrForbidden :: Error where
  "ErrForbidden =
     \<lparr>Msg = ''Access denied, please provide a valid token for this resource'',
      Code = ''forbidden''\<rparr>"

definition ErrStoreNotFound :: Error where
  "ErrStoreNotFound = \<lparr>Msg = ''The requested store does not exist'', Code = ''store_not_found''\<rparr>"

definition ErrStoreSuspended :: Error where
  "ErrStoreSuspended =
     \<lparr>Msg = ''The requested store has been suspended'', Code = ''store_suspended''\<rparr>"

definition ErrBlobNotFound :: Error where
  "ErrBlobNotFound = \<lparr>Msg = ''The requested blob does not exist'', Code = ''not_found''\<rparr>"

definition NewUnknownError :: "int \<Rightarrow> string \<Rightarrow> Error" where
  "NewUnknownError statusCode message =
     \<lparr>Msg = ''Unknown error, please visit https://vercel.com/help ('' @ Itoa statusCode @ ''): '' @ message,
      Code = ''unknown_error''\<rparr>"

definition NewInvalidInputError :: "string \<Rightarrow> Error" where
  "NewInvalidInputError field = \<lparr>Msg = field @ '' is required'', Code = ''invalid_input''\<rparr>"

subsection \<open>Requests, responses and the JSON shapes\<close>

type_synonym bytes = "8 word list"

record BlobAPIErrorDetail =
  DetailCode :: string
  DetailMessage :: string

record BlobAPIError =
  ErrorDetail :: BlobAPIErrorDetail

record PutBlobPutResult =
  ResultURL :: string
  ResultPathname :: string
  ResultContentType :: string
  ResultContentDisposition :: string

record HeadBlobResult =
  HeadURL :: string
  HeadSize :: nat
  HeadUploadedAt :: string
  HeadPathname :: string
  HeadContentType :: string
  HeadContentDisposition :: string
  HeadCacheControl :: string

record ListBlobResultBlob =
  BlobURL :: string
  BlobPathName :: string
  BlobSize :: nat
  BlobUploadedAt :: string

record ListBlobResult =
  Blobs :: "ListBlobResultBlob list"
  Folders :: "string list"
  Cursor :: string
  HasMore :: bool

record ListCommandOptions =
  Limit :: nat
  Prefix :: string
  ListCursor :: string
  Mode :: string

record PutCommandOptions =
  AddRandomSuffix :: bool
  CacheControlMaxAge :: nat
  ContentType :: string
  Access :: string

record createMultipartUploadResponse =
  UploadID :: string
  Key :: string

record Part =
  ETag :: string
  PartNumber :: int

record completeMultipartUploadRequest =
  CompleteUploadID :: string
  CompleteKey :: string
  Parts :: "Part list"

text \<open>
  What a request carries as its body. \<^verbatim>\<open>json.Marshal\<close> of a Go value is kept as the value
  itself; a streamed body is the bytes the reader delivers and the way the reader ends.
\<close>

datatype payload =
    NoBody
  | Raw bytes io_err
  | JsonDelete "string list"
  | JsonComplete completeMultipartUploadRequest

text \<open>
  A request URL: the string given to \<^verbatim>\<open>http.NewRequestWithContext\<close> (for
  \<^verbatim>\<open>getAPIURL\<close>, the base URL with its path replaced), and the query parameters added.
\<close>

record url =
  UrlBase :: string
  UrlPath :: "string option"
  UrlQuery :: "(string \<times> string) list"

record request =
  Method :: string
  URL :: url
  Header :: "string \<rightharpoonup> string"
  Body :: payload

record response =
  StatusCode :: int
  RespHeader :: "string \<rightharpoonup> string"
  RespBody :: string

text \<open>
  The client. The token provider is the interface method \<^verbatim>\<open>GetToken(operation, pathname)\<close>,
  returning a token and an error; the HTTP client answers a request, given the requests
  sent before it, with a transport error or a response.
\<close>

record Client =
  tokenProvider :: "(string \<Rightarrow> string \<Rightarrow> string \<times> err option) option"
  baseURL :: string
  apiVersion :: string
  httpClient :: "request list \<Rightarrow> request \<Rightarrow> string + response"

text \<open>
  What the code takes from the Go standard library and the process: the environment
  variable \<^verbatim>\<open>BLOB_READ_WRITE_TOKEN\<close>, \<^verbatim>\<open>http.StatusText\<close>, the JSON decoders of
  \<^verbatim>\<open>encoding/json\<close> for each target struct, and the error, if any, that
  \<^verbatim>\<open>http.NewRequestWithContext\<close> returns for a URL string (the error of parsing it). A
  decoder returns the struct as \<^verbatim>\<open>Decode\<close> leaves it (starting from the zero value: a
  body that is no JSON leaves it there, a body with a value of the wrong type for a field
  leaves the other fields decoded) and the error, if any.
\<close>

record environ =
  BLOB_READ_WRITE_TOKEN :: string
  StatusText :: "int \<Rightarrow> string"
  decodeBlobAPIError :: "string \<Rightarrow> BlobAPIError \<times> string option"
  decodeCreateResponse :: "string \<Rightarrow> createMultipartUploadResponse \<times> string option"
  decodePutResult :: "string \<Rightarrow> PutBlobPutResult \<times> string option"
  decodeHeadResult :: "string \<Rightarrow> HeadBlobResult \<times> string option"
  decodeListResult :: "string \<Rightarrow> ListBlobResult \<times> string option"
  newRequestError :: "string \<Rightarrow> string option"

text \<open>The effects of a call: the requests handed to the HTTP client and the calls of the
  token provider, each in order.\<close>

record world =
  sent :: "request list"
  tokenCalls :: "(string \<times> string) list"

definition world0 :: world where
  "world0 = \<lparr>sent = [], tokenCalls = []\<rparr>"

subsection \<open>Request building (client.go)\<close>

text \<open>
  \<^verbatim>\<open>getAPIURL\<close> writes into the parsed base URL, so the operations that go through it
  are modelled for a base URL that parses, and \<^verbatim>\<open>http.NewRequestWithContext\<close> then
  succeeds on the URL it is given (the methods are valid); \<^verbatim>\<open>List\<close> hands the base URL
  to \<^verbatim>\<open>http.NewRequestWithContext\<close> itself and returns its error. The context plays no
  part, and a cancelled request is a transport error of the HTTP client. Header names are
  kept as the source writes them: \<^verbatim>\<open>net/http\<close> normalises their case, and no two names
  the client sets differ by case only.
\<close>

text \<open>\<^verbatim>\<open>url.Values.Encode\<close>: the parameters sorted by key (strings compare byte by byte);
  the escaping of the values is not modelled.\<close>

definition Values_Encode :: "(string \<times> string) list \<Rightarrow> (string \<times> string) list" where
  "Values_Encode q = sort_key fst q"


definition MultipartThreshold :: nat where
  "MultipartThreshold = 5 * 1024 * 1024"

definition getAPIURL :: "Client \<Rightarrow> string \<Rightarrow> url" where
  "getAPIURL c pathname = \<lparr>UrlBase = baseURL c, UrlPath = Some pathname, UrlQuery = []\<rparr>"

definition NewRequest :: "string \<Rightarrow> url \<Rightarrow> payload \<Rightarrow> request" where
  "NewRequest m u b = \<lparr>Method = m, URL = u, Header = Map.empty, Body = b\<rparr>"

definition Header_Set :: "string \<Rightarrow> string \<Rightarrow> request \<Rightarrow> request" where
  "Header_Set k v req = req\<lparr>Header := (Header req)(k \<mapsto> v)\<rparr>"

definition Header_Get :: "(string \<rightharpoonup> string) \<Rightarrow> string \<Rightarrow> string" where
  "Header_Get h k = (case h k of None \<Rightarrow> [] | Some v \<Rightarrow> v)"

definition addAPIVersionHeader :: "Client \<Rightarrow> request \<Rightarrow> request" where
  "addAPIVersionHeader c req = Header_Set ''x-api-version'' (apiVersion c) req"

definition addAuthorizationHeader ::
  "Client \<Rightarrow> environ \<Rightarrow> request \<Rightarrow> string \<Rightarrow> string \<Rightarrow> world \<Rightarrow> Error option \<times> request \<times> world" where
  "addAuthorizationHeader c env req operation pathname w =
     (let (token, w') =
        (case tokenProvider c of
           Some p \<Rightarrow> (fst (p operation pathname),
                      w\<lparr>tokenCalls := tokenCalls w @ [(operation, pathname)]\<rparr>)
         | None \<Rightarrow> (BLOB_READ_WRITE_TOKEN env, w))
      in if token = [] then (Some ErrNotAuthenticated, req, w')
         else (None, Header_Set ''Authorization'' (''Bearer '' @ token) req, w'))"

definition Do :: "Client \<Rightarrow> request \<Rightarrow> world \<Rightarrow> (string + response) \<times> world" where
  "Do c req w = (httpClient c (sent w) req, w\<lparr>sent := sent w @ [req]\<rparr>)"

subsection \<open>The error mapper\<close>

definition handleError :: "environ \<Rightarrow> response \<Rightarrow> err" where
  "handleError env resp =
     (if StatusCode resp \<ge> 500
      then ApiError (NewUnknownError (StatusCode resp) (StatusText env (StatusCode resp)))
      else case decodeBlobAPIError env (RespBody resp) of
             (errResp, Some e) \<Rightarrow> DecodeError e
           | (errResp, None) \<Rightarrow>
               (let code = DetailCode (ErrorDetail errResp) in
                if code = ''store_suspended'' then ApiError ErrStoreSuspended
                else if code = ''forbidden'' then ApiError ErrForbidden
                else if code = ''not_found'' then ApiError ErrBlobNotFound
                else if code = ''store_not_found'' then ApiError ErrStoreNotFound
                else if code = ''bad_request''
                  then ApiError (ErrBadRequest (DetailMessage (ErrorDetail errResp)))
                else ApiError (NewUnknownError (StatusCode resp)
                                 (DetailMessage (ErrorDetail errResp)))))"

subsection \<open>Request bodies as readers\<close>

text \<open>
  The \<^verbatim>\<open>io.Reader\<close> given to \<^verbatim>\<open>Put\<close>: the bytes it still delivers, the error that
  follows them (\<^verbatim>\<open>io.EOF\<close> for a stream that ends well), and what \<^verbatim>\<open>Put\<close> can learn of
  its size: \<open>Sizer s\<close> has a method \<^verbatim>\<open>Size()\<close> returning \<open>s\<close>; \<open>Seeker e\<close> is an
  \<^verbatim>\<open>io.Seeker\<close> whose \<^verbatim>\<open>Seek(0, io.SeekEnd)\<close> returns \<open>e\<close> and whose last \<^verbatim>\<open>Seek\<close>
  restores the read position; \<open>NoCapability\<close> is neither.
\<close>

datatype capability = Sizer int | Seeker int | NoCapability

record reader =
  rdCap :: capability
  rdData :: bytes
  rdEnd :: io_err

text \<open>
  \<^verbatim>\<open>io.ReadFull(body, buffer)\<close> with a buffer of \<open>k\<close> bytes: the bytes read, the error
  (\<open>None\<close> is \<^verbatim>\<open>nil\<close>) and the reader afterwards. The buffer is filled exactly when the
  error is \<^verbatim>\<open>nil\<close>; a stream that ends with \<^verbatim>\<open>io.EOF\<close> after some but not all of the bytes
  gives \<^verbatim>\<open>io.ErrUnexpectedEOF\<close>; any other error of the reader is passed on with the bytes
  read before it.
\<close>

definition ReadFull :: "reader \<Rightarrow> nat \<Rightarrow> bytes \<times> io_err option \<times> reader" where
  "ReadFull r k =
     (if k \<le> length (rdData r)
      then (take k (rdData r), None, r\<lparr>rdData := drop k (rdData r)\<rparr>)
      else (rdData r,
            Some (if rdData r \<noteq> [] \<and> rdEnd r = EOF then ErrUnexpectedEOF else rdEnd r),
            r\<lparr>rdData := []\<rparr>))"

text \<open>Go's \<^verbatim>\<open>int\<close> (64 bits): the value of an arithmetic result after wrap-around.\<close>

definition int_wrap :: "int \<Rightarrow> int" where
  "int_wrap x = (x + 2 ^ 63) mod 2 ^ 64 - 2 ^ 63"

subsection \<open>Operations (client.go, multipart.go)\<close>

definition List_blobs ::
  "Client \<Rightarrow> environ \<Rightarrow> ListCommandOptions \<Rightarrow> world \<Rightarrow> (err + ListBlobResult) \<times> world" where
  "List_blobs c env options w =
     (case newRequestError env (baseURL c) of
        Some e \<Rightarrow> (Inl (RequestError e), w)
      | None \<Rightarrow>
          (let q = (if Limit options > 0 then [(''limit'', utoa (Limit options))] else [])
                 @ (if Prefix options \<noteq> [] then [(''prefix'', Prefix options)] else [])
                 @ (if ListCursor options \<noteq> [] then [(''cursor'', ListCursor options)] else [])
                 @ (if Mode options \<noteq> [] then [(''mode'', Mode options)] else []);
               req = NewRequest ''GET''
                       \<lparr>UrlBase = baseURL c, UrlPath = None, UrlQuery = Values_Encode q\<rparr> NoBody;
               req = addAPIVersionHeader c req
           in case addAuthorizationHeader c env req ''list'' [] w of
                (Some e, req, w) \<Rightarrow> (Inl (ApiError e), w)
              | (None, req, w) \<Rightarrow>
                  (case Do c req w of
                     (Inl e, w) \<Rightarrow> (Inl (TransportError e), w)
                   | (Inr resp, w) \<Rightarrow>
                       if StatusCode resp \<noteq> 200 then (Inl (handleError env resp), w)
                       else (case decodeListResult env (RespBody resp) of
                               (result, Some e) \<Rightarrow> (Inl (DecodeError e), w)
                             | (result, None) \<Rightarrow> (Inr result, w)))))"

definition setPutHeaders :: "PutCommandOptions \<Rightarrow> request \<Rightarrow> request" where
  "setPutHeaders options req =
     (let req = (if \<not> AddRandomSuffix options then Header_Set ''X-Add-Random-Suffix'' ''0'' req
                 else req);
          req = (if ContentType options \<noteq> [] then Header_Set ''X-Content-Type'' (ContentType options) req
                 else req);
          req = (if CacheControlMaxAge options > 0
                 then Header_Set ''X-Cache-Control-Max-Age'' (utoa (CacheControlMaxAge options)) req
                 else req);
          access = (if Access options = [] then ''public'' else Access options)
      in Header_Set ''X-Access'' access req)"

text \<open>The body of the loop of \<^verbatim>\<open>putMultipart\<close> for a read of \<open>n > 0\<close> bytes: the upload of
  one part. It returns the part list and the part number as the loop goes on with them.\<close>

definition uploadPart ::
  "Client \<Rightarrow> environ \<Rightarrow> string \<Rightarrow> url \<Rightarrow> createMultipartUploadResponse \<Rightarrow> bytes \<Rightarrow>
   Part list \<Rightarrow> int \<Rightarrow> world \<Rightarrow> (err + Part list \<times> int) \<times> world" where
  "uploadPart c env pathname apiURL createResp chunk parts partNumber w =
     (let req = NewRequest ''PUT'' apiURL (Raw chunk EOF);
          req = addAPIVersionHeader c req
      in case addAuthorizationHeader c env req ''put'' pathname w of
           (_, req, w) \<Rightarrow>
             (let req = Header_Set ''X-MPU-Action'' ''upload'' req;
                  req = Header_Set ''X-MPU-Upload-Id'' (UploadID createResp) req;
                  req = Header_Set ''X-MPU-Key'' (Key createResp) req;
                  req = Header_Set ''X-MPU-Part-Number'' (Itoa partNumber) req
              in case Do c req w of
                   (Inl e, w) \<Rightarrow> (Inl (TransportError e), w)
                 | (Inr resp, w) \<Rightarrow>
                     if StatusCode resp \<noteq> 200 then (Inl (handleError env resp), w)
                     else (let etag = Header_Get (RespHeader resp) ''ETag''
                           in (Inr (parts @ [\<lparr>ETag = etag, PartNumber = partNumber\<rparr>],
                                    int_wrap (partNumber + 1)), w))))"

text \<open>The loop of \<^verbatim>\<open>putMultipart\<close>: read a chunk, upload it when it is not empty, stop at
  the end of the stream or at an error.\<close>

function uploadParts ::
  "Client \<Rightarrow> environ \<Rightarrow> string \<Rightarrow> url \<Rightarrow> createMultipartUploadResponse \<Rightarrow> reader \<Rightarrow>
   Part list \<Rightarrow> int \<Rightarrow> world \<Rightarrow> (err + Part list) \<times> world" where
  "uploadParts c env pathname apiURL createResp body parts partNumber w =
     (case ReadFull body MultipartThreshold of
        (chunk, rerr, body') \<Rightarrow>
          (case (if length chunk > 0
                 then uploadPart c env pathname apiURL createResp chunk parts partNumber w
                 else (Inr (parts, partNumber), w)) of
             (Inl e, w') \<Rightarrow> (Inl e, w')
           | (Inr (parts', partNumber'), w') \<Rightarrow>
               if rerr = Some EOF \<or> rerr = Some ErrUnexpectedEOF then (Inr parts', w')
               else (case rerr of
                       Some e \<Rightarrow> (Inl (ReadError e), w')
                     | None \<Rightarrow>
                         uploadParts c env pathname apiURL createResp body' parts' partNumber' w')))"
  by pat_completeness auto
termination
  by (relation "measure (\<lambda>(c, env, pathname, apiURL, createResp, body, parts, partNumber, w).
                  length (rdData body))")
     (auto simp: ReadFull_def MultipartThreshold_def split: if_splits)

declare uploadParts.simps [simp del]

definition putMultipart ::
  "Client \<Rightarrow> environ \<Rightarrow> string \<Rightarrow> reader \<Rightarrow> PutCommandOptions \<Rightarrow> world \<Rightarrow>
   (err + PutBlobPutResult) \<times> world" where
  "putMultipart c env pathname body options w =
     (let apiURL = getAPIURL c ''/mpu'';
          req = NewRequest ''POST'' apiURL NoBody;
          req = addAPIVersionHeader c req
      in case addAuthorizationHeader c env req ''put'' pathname w of
           (_, req, w) \<Rightarrow>
             (let req = setPutHeaders options req;
                  req = Header_Set ''X-MPU-Action'' ''create'' req
              in case Do c req w of
                   (Inl e, w) \<Rightarrow> (Inl (TransportError e), w)
                 | (Inr resp, w) \<Rightarrow>
                     if StatusCode resp \<noteq> 200 then (Inl (handleError env resp), w)
                     else (let createResp = fst (decodeCreateResponse env (RespBody resp))
                           in case uploadParts c env pathname apiURL createResp body [] 1 w of
                                (Inl e, w) \<Rightarrow> (Inl e, w)
                              | (Inr parts, w) \<Rightarrow>
                                  (let completeReq = JsonComplete
                                         \<lparr>CompleteUploadID = UploadID createResp,
                                          CompleteKey = Key createResp,
                                          Parts = parts\<rparr>;
                                       req = NewRequest ''POST'' apiURL completeReq;
                                       req = addAPIVersionHeader c req
                                   in case addAuthorizationHeader c env req ''put'' pathname w of
                                        (_, req, w) \<Rightarrow>
                                          (let req = Header_Set ''X-MPU-Action'' ''complete'' req
                                           in case Do c req w of
                                                (Inl e, w) \<Rightarrow> (Inl (TransportError e), w)
                                              | (Inr resp, w) \<Rightarrow>
                                                  if StatusCode resp \<noteq> 200
                                                  then (Inl (handleError env resp), w)
                                                  else (Inr (fst (decodePutResult env (RespBody resp))), w))))))"

text \<open>The size \<^verbatim>\<open>Put\<close> finds for a body: \<^verbatim>\<open>Size()\<close>, else the offset of the end by
  \<^verbatim>\<open>Seek\<close>, else \<open>-1\<close>.\<close>

definition bodySize :: "reader \<Rightarrow> int" where
  "bodySize body = (case rdCap body of Sizer s \<Rightarrow> s | Seeker e \<Rightarrow> e | NoCapability \<Rightarrow> - 1)"

definition Put ::
  "Client \<Rightarrow> environ \<Rightarrow> string \<Rightarrow> reader \<Rightarrow> PutCommandOptions \<Rightarrow> world \<Rightarrow>
   (err + PutBlobPutResult) \<times> world" where
  "Put c env pathname body options w =
     (if length pathname = 0 then (Inl (ApiError (NewInvalidInputError ''pathname'')), w)
      else if bodySize body > int MultipartThreshold
        then putMultipart c env pathname body options w
      else (let apiURL = getAPIURL c pathname;
                req = NewRequest ''PUT'' apiURL (Raw (rdData body) (rdEnd body));
                req = addAPIVersionHeader c req
            in case addAuthorizationHeader c env req ''put'' pathname w of
                 (Some e, req, w) \<Rightarrow> (Inl (ApiError e), w)
               | (None, req, w) \<Rightarrow>
                   (let req = setPutHeaders options req
                    in case Do c req w of
                         (Inl e, w) \<Rightarrow> (Inl (TransportError e), w)
                       | (Inr resp, w) \<Rightarrow>
                           if StatusCode resp \<noteq> 200 then (Inl (handleError env resp), w)
                           else (case decodePutResult env (RespBody resp) of
                                   (result, Some e) \<Rightarrow> (Inl (DecodeError e), w)
                                 | (result, None) \<Rightarrow> (Inr result, w)))))"

definition Head ::
  "Client \<Rightarrow> environ \<Rightarrow> string \<Rightarrow> world \<Rightarrow> (err + HeadBlobResult) \<times> world" where
  "Head c env pathname w =
     (let apiURL = getAPIURL c pathname;
          req = NewRequest ''GET'' apiURL NoBody;
          req = addAPIVersionHeader c req
      in case addAuthorizationHeader c env req ''put'' pathname w of
           (_, req, w) \<Rightarrow>
             (case Do c req w of
                (Inl e, w) \<Rightarrow> (Inl (TransportError e), w)
              | (Inr resp, w) \<Rightarrow>
                  if StatusCode resp = 404 then (Inl (ApiError ErrBlobNotFound), w)
                  else if StatusCode resp \<noteq> 200 then (Inl (handleError env resp), w)
                  else (case decodeHeadResult env (RespBody resp) of
                          (result, Some e) \<Rightarrow> (Inl (DecodeError e), w)
                        | (result, None) \<Rightarrow> (Inr result, w))))"

text \<open>\<^verbatim>\<open>Delete\<close> returns only an error: \<open>None\<close> is \<^verbatim>\<open>nil\<close>.\<close>

definition Delete :: "Client \<Rightarrow> environ \<Rightarrow> string list \<Rightarrow> world \<Rightarrow> err option \<times> world" where
  "Delete c env urls w =
     (case urls of
        [] \<Rightarrow> (None, w)
      | url0 # _ \<Rightarrow>
          (let apiURL = getAPIURL c ''/delete'';
               req = NewRequest ''POST'' apiURL (JsonDelete urls);
               req = Header_Set ''Content-Type'' ''application/json'' req;
               req = addAPIVersionHeader c req
           in case addAuthorizationHeader c env req ''delete'' url0 w of
                (_, req, w) \<Rightarrow>
                  (case Do c req w of
                     (Inl e, w) \<Rightarrow> (Some (TransportError e), w)
                   | (Inr resp, w) \<Rightarrow>
                       if StatusCode resp \<noteq> 200 then (Some (handleError env resp), w)
                       else (None, w))))"

definition Copy ::
  "Client \<Rightarrow> environ \<Rightarrow> string \<Rightarrow> string \<Rightarrow> PutCommandOptions \<Rightarrow> world \<Rightarrow>
   (err + PutBlobPutResult) \<times> world" where
  "Copy c env fromURL toPath options w =
     (if length fromURL = 0 then (Inl (ApiError (NewInvalidInputError ''fromURL'')), w)
      else if length toPath = 0 then (Inl (ApiError (NewInvalidInputError ''toPath'')), w)
      else (let apiURL = getAPIURL c toPath;
                req = NewRequest ''PUT'' (apiURL\<lparr>UrlQuery := Values_Encode [(''fromUrl'', fromURL)]\<rparr>) NoBody;
                req = addAPIVersionHeader c req
            in case addAuthorizationHeader c env req ''put'' toPath w of
                 (_, req, w) \<Rightarrow>
                   (let req = setPutHeaders options req
                    in case Do c req w of
                         (Inl e, w) \<Rightarrow> (Inl (TransportError e), w)
                       | (Inr resp, w) \<Rightarrow>
                           if StatusCode resp \<noteq> 200 then (Inl (handleError env resp), w)
                           else (Inr (fst (decodePutResult env (RespBody resp))), w))))"

text \<open>\<^verbatim>\<open>Download\<close>, for a URL that \<^verbatim>\<open>http.NewRequestWithContext\<close> accepts. The byte range is
  the optional \<^verbatim>\<open>Range{Start, End}\<close>; the result is the response body as read.\<close>

definition Download ::
  "Client \<Rightarrow> environ \<Rightarrow> string \<Rightarrow> (nat \<times> nat) option \<Rightarrow> world \<Rightarrow> (err + string) \<times> world" where
  "Download c env urlPath byteRange w =
     (let req = NewRequest ''GET'' \<lparr>UrlBase = urlPath, UrlPath = None, UrlQuery = []\<rparr> NoBody;
          req = addAPIVersionHeader c req
      in case addAuthorizationHeader c env req ''download'' urlPath w of
           (_, req, w) \<Rightarrow>
             (let req = (case byteRange of
                           Some (start, end') \<Rightarrow>
                             Header_Set ''range'' (''bytes='' @ utoa start @ ''-'' @ utoa end') req
                         | None \<Rightarrow> req)
              in case Do c req w of
                   (Inl e, w) \<Rightarrow> (Inl (TransportError e), w)
                 | (Inr resp, w) \<Rightarrow>
                     if StatusCode resp \<noteq> 200 \<and> StatusCode resp \<noteq> 206
                     then (Inl (handleError env resp), w)
                     else (Inr (RespBody resp), w)))"

subsection \<open>Client tokens (token.go)\<close>

record ClientTokenOptions =
  TokenOperation :: string
  TokenPathname :: string
  ExpiresAt :: int

text \<open>
  What \<^verbatim>\<open>GenerateClientToken\<close> takes from the standard library: the clock
  (\<^verbatim>\<open>time.Now()\<close> as Unix seconds), \<^verbatim>\<open>json.Marshal\<close> of the options, and HMAC with SHA-256
  (key first, then message).
\<close>

record tokenlib =
  timeNowUnix :: int
  jsonMarshal :: "ClientTokenOptions \<Rightarrow> string + bytes"
  hmacSHA256 :: "bytes \<Rightarrow> bytes \<Rightarrow> bytes"

text \<open>\<^verbatim>\<open>hex.EncodeToString\<close>: two lower-case hexadecimal digits for each byte.\<close>

definition hexDigit :: "nat \<Rightarrow> char" where
  "hexDigit n = ''0123456789abcdef'' ! n"

definition EncodeToString :: "bytes \<Rightarrow> string" where
  "EncodeToString bs = concat (map (\<lambda>b. [hexDigit (unat b div 16), hexDigit (unat b mod 16)]) bs)"

definition GenerateClientToken :: "tokenlib \<Rightarrow> bytes \<Rightarrow> ClientTokenOptions \<Rightarrow> err + string" where
  "GenerateClientToken lib token options =
     (let options = (if ExpiresAt options = 0
                     then options\<lparr>ExpiresAt := timeNowUnix lib + 3600\<rparr> else options)
      in case jsonMarshal lib options of
           Inl e \<Rightarrow> Inl (DecodeError e)
         | Inr payload \<Rightarrow>
             (let signature = EncodeToString (hmacSHA256 lib token payload)
              in Inr (EncodeToString payload @ ''.'' @ signature)))"

section \<open>Specification vocabulary\<close>

text \<open>The requests an operation hands to the HTTP client, between the world before it
  and the world after it.\<close>

definition newRequests :: "world \<Rightarrow> world \<Rightarrow> request list" where
  "newRequests w w' = drop (length (sent w)) (sent w')"

text \<open>The token that \<^verbatim>\<open>addAuthorizationHeader\<close> resolves: the provider's when one is
  configured, the environment variable's otherwise. The empty string is no token.\<close>

definition resolvedToken :: "Client \<Rightarrow> environ \<Rightarrow> string \<Rightarrow> string \<Rightarrow> string" where
  "resolvedToken c env operation pathname =
     (case tokenProvider c of
        Some p \<Rightarrow> fst (p operation pathname)
      | None \<Rightarrow> BLOB_READ_WRITE_TOKEN env)"

text \<open>The unknown-error of the taxonomy, as the spec names it: an \<^verbatim>\<open>Error\<close> whose code is
  \<^verbatim>\<open>unknown_error\<close>.\<close>

definition isUnknownError :: "err \<Rightarrow> bool" where
  "isUnknownError e = (case e of ApiError x \<Rightarrow> Code x = ''unknown_error'' | _ \<Rightarrow> False)"

text \<open>The spec's table of recognised server codes and their typed errors.\<close>

definition recognisedCode :: "string \<Rightarrow> string \<Rightarrow> Error option" where
  "recognisedCode code message =
     [''store_suspended'' \<mapsto> ErrStoreSuspended,
      ''forbidden'' \<mapsto> ErrForbidden,
      ''not_found'' \<mapsto> ErrBlobNotFound,
      ''store_not_found'' \<mapsto> ErrStoreNotFound,
      ''bad_request'' \<mapsto> ErrBadRequest message] code"

text \<open>The chunks of a stream for a buffer of \<open>k\<close> bytes, as the spec describes them: the
  stream is cut every \<open>k\<close> bytes, and what is left at the end is a last, shorter chunk.\<close>

function chunks :: "nat \<Rightarrow> 'a list \<Rightarrow> 'a list list" where
  "chunks k xs = (if k = 0 \<or> xs = [] then [] else take k xs # chunks k (drop k xs))"
  by pat_completeness auto
termination
  by (relation "measure (\<lambda>(k, xs). length xs)") auto

declare chunks.simps [simp del]

text \<open>The error a result carries, if any.\<close>

definition errOf :: "err + 'a \<Rightarrow> err option" where
  "errOf res = (case res of Inl e \<Rightarrow> Some e | Inr _ \<Rightarrow> None)"

text \<open>
  The spec's failure rule, read along the requests \<open>rs\<close> that an operation hands to the
  HTTP client after the requests \<open>h\<close>: the first request that the transport fails or that
  is answered with a status other than 200 is the last request, and the operation
  returns the error of that failure.
\<close>

fun stopsAtFailure :: "Client \<Rightarrow> environ \<Rightarrow> request list \<Rightarrow> request list \<Rightarrow> err option \<Rightarrow> bool" where
  "stopsAtFailure c env h [] res = True"
| "stopsAtFailure c env h (r # rs) res =
     (case httpClient c h r of
        Inl e \<Rightarrow> rs = [] \<and> res = Some (TransportError e)
      | Inr resp \<Rightarrow>
          if StatusCode resp \<noteq> 200 then rs = [] \<and> res = Some (handleError env resp)
          else stopsAtFailure c env (h @ [r]) rs res)"

text \<open>The three requests of the multipart protocol, as the spec's table of requests has
  them: method, URL, action header, correlation headers and body.\<close>

definition isCreateRequest :: "url \<Rightarrow> request \<Rightarrow> bool" where
  "isCreateRequest apiURL r \<longleftrightarrow>
     Method r = ''POST'' \<and> URL r = apiURL \<and> Body r = NoBody \<and>
     Header r ''X-MPU-Action'' = Some ''create''"

definition isPartUpload :: "url \<Rightarrow> createMultipartUploadResponse \<Rightarrow> bytes \<Rightarrow> request \<Rightarrow> bool" where
  "isPartUpload apiURL cr chunk r \<longleftrightarrow>
     Method r = ''PUT'' \<and> URL r = apiURL \<and> Body r = Raw chunk EOF \<and>
     Header r ''X-MPU-Action'' = Some ''upload'' \<and>
     Header r ''X-MPU-Upload-Id'' = Some (UploadID cr) \<and>
     Header r ''X-MPU-Key'' = Some (Key cr)"

definition isCompleteRequest ::
  "url \<Rightarrow> createMultipartUploadResponse \<Rightarrow> Part list \<Rightarrow> request \<Rightarrow> bool" where
  "isCompleteRequest apiURL cr parts r \<longleftrightarrow>
     Method r = ''POST'' \<and> URL r = apiURL \<and>
     Body r = JsonComplete \<lparr>CompleteUploadID = UploadID cr, CompleteKey = Key cr, Parts = parts\<rparr> \<and>
     Header r ''X-MPU-Action'' = Some ''complete''"

section \<open>Concrete clients, servers and bodies\<close>

definition zeroPutResult :: PutBlobPutResult where
  "zeroPutResult = \<lparr>ResultURL = [], ResultPathname = [], ResultContentType = [],
                     ResultContentDisposition = []\<rparr>"

definition zeroHeadResult :: HeadBlobResult where
  "zeroHeadResult = \<lparr>HeadURL = [], HeadSize = 0, HeadUploadedAt = [], HeadPathname = [],
                      HeadContentType = [], HeadContentDisposition = [], HeadCacheControl = []\<rparr>"

definition zeroCreateResponse :: createMultipartUploadResponse where
  "zeroCreateResponse = \<lparr>UploadID = [], Key = []\<rparr>"

definition zeroBlobAPIError :: BlobAPIError where
  "zeroBlobAPIError = \<lparr>ErrorDetail = \<lparr>DetailCode = [], DetailMessage = []\<rparr>\<rparr>"

text \<open>A small decoder for the concrete runs: it knows a few bodies by name and rejects every
  other body with a syntax error, leaving the target at its zero value. Two of the bodies
  it knows are JSON objects with a number where a string is expected: as
  \<^verbatim>\<open>encoding/json\<close> does, it skips that field, decodes the others and returns the type
  error.\<close>

definition demoEnv :: environ where
  "demoEnv =
     \<lparr>BLOB_READ_WRITE_TOKEN = ''secret'',
      StatusText = (\<lambda>s. if s = 503 then ''Service Unavailable'' else []),
      decodeBlobAPIError = (\<lambda>b.
        if b = ''forbidden-envelope''
          then (\<lparr>ErrorDetail = \<lparr>DetailCode = ''forbidden'', DetailMessage = ''no''\<rparr>\<rparr>, None)
        else if b = ''bad-request-envelope''
          then (\<lparr>ErrorDetail = \<lparr>DetailCode = ''bad_request'', DetailMessage = ''too big''\<rparr>\<rparr>, None)
        else if b = ''teapot-envelope''
          then (\<lparr>ErrorDetail = \<lparr>DetailCode = ''teapot'', DetailMessage = ''short and stout''\<rparr>\<rparr>, None)
        else (zeroBlobAPIError, Some ''invalid character'')),
      decodeCreateResponse = (\<lambda>b.
        if b = ''created'' then (\<lparr>UploadID = ''u1'', Key = ''k1''\<rparr>, None)
        else if b = ''created-with-a-number-as-key''
          then (\<lparr>UploadID = ''u1'', Key = []\<rparr>, Some ''cannot unmarshal number into field key'')
        else (zeroCreateResponse, Some ''invalid character'')),
      decodePutResult = (\<lambda>b.
        if b = ''stored'' then (zeroPutResult\<lparr>ResultURL := ''https://store/a''\<rparr>, None)
        else if b = ''stored-with-a-number-as-pathname''
          then (zeroPutResult\<lparr>ResultURL := ''https://store/a''\<rparr>,
                Some ''cannot unmarshal number into field pathname'')
        else (zeroPutResult, Some ''invalid character'')),
      decodeHeadResult = (\<lambda>b.
        if b = ''meta'' then (zeroHeadResult\<lparr>HeadSize := 5\<rparr>, None)
        else (zeroHeadResult, Some ''invalid character'')),
      decodeListResult = (\<lambda>b.
        (\<lparr>Blobs = [], Folders = [], Cursor = [], HasMore = False\<rparr>,
         if b = ''page'' then None else Some ''invalid character'')),
      newRequestError = (\<lambda>u. if u = ''::'' then Some ''missing protocol scheme'' else None)\<rparr>"

definition respond :: "int \<Rightarrow> string \<Rightarrow> response" where
  "respond status b = \<lparr>StatusCode = status, RespHeader = [''ETag'' \<mapsto> ''tag''], RespBody = b\<rparr>"

text \<open>A client whose server answers every request with the given status and body.\<close>

definition demoClient :: "int \<Rightarrow> string \<Rightarrow> Client" where
  "demoClient status b =
     \<lparr>tokenProvider = None, baseURL = ''https://blob.example'', apiVersion = ''9'',
      httpClient = (\<lambda>h r. Inr (respond status b))\<rparr>"

text \<open>A server for the multipart protocol: it answers the create request with a body
  that decodes to an upload identifier and a key, the complete request with a body that
  decodes to a result, and every other request with an empty body, all with status 200.\<close>

definition mpuServer :: "request list \<Rightarrow> request \<Rightarrow> string + response" where
  "mpuServer h r =
     (if Header r ''X-MPU-Action'' = Some ''create'' then Inr (respond 200 ''created'')
      else if Header r ''X-MPU-Action'' = Some ''complete'' then Inr (respond 200 ''stored'')
      else Inr (respond 200 []))"

definition mpuClient :: Client where
  "mpuClient = (demoClient 200 [])\<lparr>httpClient := mpuServer\<rparr>"

text \<open>The same server, except that it answers the upload of part 2 with status 503.\<close>

definition flakyClient :: Client where
  "flakyClient = mpuClient\<lparr>httpClient := (\<lambda>h r.
     if Header r ''X-MPU-Part-Number'' = Some ''2'' then Inr (respond 503 []) else mpuServer h r)\<rparr>"

text \<open>A server whose create and complete responses have a number where a string is
  expected.\<close>

definition mistypedClient :: Client where
  "mistypedClient = mpuClient\<lparr>httpClient := (\<lambda>h r.
     if Header r ''X-MPU-Action'' = Some ''create''
       then Inr (respond 200 ''created-with-a-number-as-key'')
     else if Header r ''X-MPU-Action'' = Some ''complete''
       then Inr (respond 200 ''stored-with-a-number-as-pathname'')
     else Inr (respond 200 []))\<rparr>"

definition demoOptions :: PutCommandOptions where
  "demoOptions = \<lparr>AddRandomSuffix = False, CacheControlMaxAge = 0, ContentType = [], Access = []\<rparr>"

text \<open>Bodies: five bytes of known size; one byte more than the threshold; a reader whose
  \<^verbatim>\<open>Size()\<close> is the length of a slice of 6000000 bytes that has been read to its end (as
  \<^verbatim>\<open>bytes.Reader\<close> reports it); a reader that fails after three bytes; and a reader that
  reports \<^verbatim>\<open>io.ErrUnexpectedEOF\<close> itself, as a truncated stream does.\<close>

definition smallBody :: reader where
  "smallBody = \<lparr>rdCap = Sizer 5, rdData = [1, 2, 3, 4, 5], rdEnd = EOF\<rparr>"

definition twoChunkBody :: reader where
  "twoChunkBody = \<lparr>rdCap = Sizer 5242881, rdData = replicate 5242881 0, rdEnd = EOF\<rparr>"

definition drainedBody :: reader where
  "drainedBody = \<lparr>rdCap = Sizer 6000000, rdData = [], rdEnd = EOF\<rparr>"

definition failingBody :: reader where
  "failingBody = \<lparr>rdCap = Sizer 6000000, rdData = [1, 2, 3], rdEnd = ReadFailure ''connection reset''\<rparr>"

definition truncatedBody :: reader where
  "truncatedBody = \<lparr>rdCap = Sizer 6000000, rdData = [], rdEnd = ErrUnexpectedEOF\<rparr>"

text \<open>A provider that would tell \<^verbatim>\<open>head\<close> from the other operations.\<close>

definition demoProvider :: "string \<Rightarrow> string \<Rightarrow> string \<times> err option" where
  "demoProvider operation pathname =
     (if operation = ''head'' then ''head-token'' else ''put-token'', None)"

section \<open>The error mapper\<close>

lemmas build_defs =
  addAuthorizationHeader_def addAPIVersionHeader_def Do_def Header_Set_def Header_Get_def
  NewRequest_def getAPIURL_def setPutHeaders_def Let_def

lemmas demo_defs =
  demoEnv_def demoClient_def respond_def demoOptions_def world0_def zeroPutResult_def
  zeroHeadResult_def zeroCreateResponse_def zeroBlobAPIError_def smallBody_def twoChunkBody_def
  drainedBody_def failingBody_def truncatedBody_def demoProvider_def

text \<open>
  For a status of at least 500 the mapper gives the unknown-error with the status code and
  the status text, whatever the body and the decoder are; for any other status and a body
  that decodes, a recognised code gives the typed error of that code and any other code
  the unknown-error with the status code and the envelope's message.
\<close>

lemma handleError_decoded:
  "(StatusCode resp \<ge> 500 \<longrightarrow>
      handleError (env\<lparr>decodeBlobAPIError := d\<rparr>) (resp\<lparr>RespBody := b\<rparr>) =
        ApiError (NewUnknownError (StatusCode resp) (StatusText env (StatusCode resp)))) \<and>
   (StatusCode resp < 500 \<longrightarrow> decodeBlobAPIError env (RespBody resp) = (v, None) \<longrightarrow>
      handleError env resp =
        (case recognisedCode (DetailCode (ErrorDetail v)) (DetailMessage (ErrorDetail v)) of
           Some typed \<Rightarrow> ApiError typed
         | None \<Rightarrow> ApiError (NewUnknownError (StatusCode resp) (DetailMessage (ErrorDetail v)))))"
  by (simp add: handleError_def recognisedCode_def)

text \<open>
  C4 on a body that fails to decode: for a response with status 400 whose body is no JSON,
  the mapper returns the decoder's error as it is. That is not the unknown-error the claim
  and the spec's taxonomy ask for, and it is no \<^verbatim>\<open>Error\<close> at all, against the comments
  of \<^verbatim>\<open>error.go\<close>, by which every error the package raises is an instance of
  \<^verbatim>\<open>Error\<close>.
\<close>

theorem handleError_decode_failure_escapes:
  "handleError demoEnv (respond 400 ''<html>'') = DecodeError ''invalid character'' \<and>
   \<not> isUnknownError (handleError demoEnv (respond 400 ''<html>''))"
  by (simp add: handleError_def demo_defs isUnknownError_def)

section \<open>Head\<close>

lemma addAuthorizationHeader_world:
  "addAuthorizationHeader c env req operation pathname w = (e, req', w') \<Longrightarrow>
   sent w' = sent w \<and>
   tokenCalls w' = tokenCalls w @ (case tokenProvider c of Some p \<Rightarrow> [(operation, pathname)] | None \<Rightarrow> [])"
  by (auto simp: addAuthorizationHeader_def Let_def split: option.splits if_splits prod.splits)

lemma addAuthorizationHeader_error:
  "addAuthorizationHeader c env req operation pathname w = (e, req', w') \<Longrightarrow>
   (e = None) = (resolvedToken c env operation pathname \<noteq> []) \<and>
   (e \<noteq> None \<longrightarrow> e = Some ErrNotAuthenticated \<and> req' = req)"
  by (auto simp: addAuthorizationHeader_def resolvedToken_def Let_def
           split: option.splits if_splits prod.splits)

lemma addAuthorizationHeader_request:
  "addAuthorizationHeader c env req operation pathname w = (e, req', w') \<Longrightarrow>
   Method req' = Method req \<and> URL req' = URL req \<and> Body req' = Body req \<and>
   (\<forall>k. k \<noteq> ''Authorization'' \<longrightarrow> Header req' k = Header req k) \<and>
   Header req' ''Authorization'' =
     (if resolvedToken c env operation pathname = [] then Header req ''Authorization''
      else Some (''Bearer '' @ resolvedToken c env operation pathname))"
  by (auto simp: addAuthorizationHeader_def resolvedToken_def Header_Set_def Let_def
           split: option.splits if_splits prod.splits)

lemma Head_sends_one:
  "\<exists>req. sent (snd (Head c env pathname w)) = sent w @ [req]"
  by (auto simp: Head_def Let_def Do_def dest!: addAuthorizationHeader_world
           split: prod.splits sum.splits option.splits)

text \<open>
  C8: when the response to the request of \<^verbatim>\<open>Head\<close> has status 404, the result is the
  blob-not-found error, whatever the body of the response and the decoders are (the error
  mapper has no part in it); when the status is neither 404 nor 200, the result is what
  the error mapper makes of the response.
\<close>

theorem Head_not_found_before_error_mapper:
  assumes "httpClient c (sent w) (last (sent (snd (Head c env pathname w)))) = Inr resp"
  shows "(StatusCode resp = 404 \<longrightarrow> fst (Head c env pathname w) = Inl (ApiError ErrBlobNotFound)) \<and>
         (StatusCode resp \<noteq> 404 \<and> StatusCode resp \<noteq> 200 \<longrightarrow>
            fst (Head c env pathname w) = Inl (handleError env resp))"
  using assms
  by (auto simp: Head_def Let_def Do_def dest!: addAuthorizationHeader_world
           split: prod.splits sum.splits option.splits)

theorem Head_not_found_before_error_mapper_witness:
  "httpClient (demoClient 404 ''forbidden-envelope'') (sent world0)
      (last (sent (snd (Head (demoClient 404 ''forbidden-envelope'') demoEnv ''a.txt'' world0)))) =
     Inr (respond 404 ''forbidden-envelope'') \<and>
   fst (Head (demoClient 404 ''forbidden-envelope'') demoEnv ''a.txt'' world0) =
     Inl (ApiError ErrBlobNotFound) \<and>
   handleError demoEnv (respond 404 ''forbidden-envelope'') = ApiError ErrForbidden \<and>
   httpClient (demoClient 403 ''forbidden-envelope'') (sent world0)
      (last (sent (snd (Head (demoClient 403 ''forbidden-envelope'') demoEnv ''a.txt'' world0)))) =
     Inr (respond 403 ''forbidden-envelope'') \<and>
   fst (Head (demoClient 403 ''forbidden-envelope'') demoEnv ''a.txt'' world0) =
     Inl (ApiError ErrForbidden)"
  using Head_not_found_before_error_mapper [where c = "demoClient 404 ''forbidden-envelope''"
          and env = demoEnv and pathname = "''a.txt''" and w = world0
          and resp = "respond 404 ''forbidden-envelope''"]
        Head_not_found_before_error_mapper [where c = "demoClient 403 ''forbidden-envelope''"
          and env = demoEnv and pathname = "''a.txt''" and w = world0
          and resp = "respond 403 ''forbidden-envelope''"]
  by (simp add: demo_defs handleError_def)

text \<open>
  C9: with a token provider configured, \<^verbatim>\<open>Head\<close> calls the provider exactly once, with
  the operation \<^verbatim>\<open>put\<close> and the pathname; a single-shot \<^verbatim>\<open>Put\<close> to the same pathname calls
  it with the same arguments, so the provider sees the same call for both.
\<close>

theorem Head_asks_token_for_put:
  assumes "tokenProvider c = Some p"
  shows "tokenCalls (snd (Head c env pathname w)) = tokenCalls w @ [(''put'', pathname)] \<and>
         (pathname \<noteq> [] \<and> bodySize body \<le> int MultipartThreshold \<longrightarrow>
            tokenCalls (snd (Put c env pathname body options w)) =
            tokenCalls (snd (Head c env pathname w)))"
  using assms
  by (auto simp: Head_def Put_def Let_def Do_def dest!: addAuthorizationHeader_world
           split: prod.splits sum.splits option.splits)

theorem Head_asks_token_for_put_witness:
  "tokenProvider ((demoClient 200 ''meta'')\<lparr>tokenProvider := Some demoProvider\<rparr>) = Some demoProvider \<and>
   ''a.txt'' \<noteq> [] \<and> bodySize smallBody \<le> int MultipartThreshold \<and>
   tokenCalls (snd (Head ((demoClient 200 ''meta'')\<lparr>tokenProvider := Some demoProvider\<rparr>)
       demoEnv ''a.txt'' world0)) = [(''put'', ''a.txt'')] \<and>
   tokenCalls (snd (Put ((demoClient 200 ''meta'')\<lparr>tokenProvider := Some demoProvider\<rparr>)
       demoEnv ''a.txt'' smallBody demoOptions world0)) = [(''put'', ''a.txt'')]"
  using Head_asks_token_for_put [where c = "(demoClient 200 ''meta'')\<lparr>tokenProvider := Some demoProvider\<rparr>"
          and p = demoProvider and env = demoEnv and pathname = "''a.txt''" and w = world0
          and body = smallBody and options = demoOptions]
  by (simp add: demoClient_def world0_def smallBody_def bodySize_def MultipartThreshold_def)

section \<open>Delete\<close>

text \<open>
  C6: \<^verbatim>\<open>Delete\<close> with no URL sends nothing and returns no error. With at least one URL it
  sends exactly one request: a POST to \<^verbatim>\<open>/delete\<close> whose body is the JSON object of the
  URLs, with the content type, the API version and, when a token resolves for the first
  URL, the authorization header. Its result is read off the answer to that request: no
  error when the status is 200, whatever the body of the response and the decoders are;
  what the error mapper makes of the response for any other status; the transport's error
  when the request fails.
\<close>

theorem Delete_single_post:
  "Delete c env [] w = (None, w) \<and>
   (urls \<noteq> [] \<longrightarrow>
      length (newRequests w (snd (Delete c env urls w))) = 1 \<and>
      Method (last (sent (snd (Delete c env urls w)))) = ''POST'' \<and>
      URL (last (sent (snd (Delete c env urls w)))) = getAPIURL c ''/delete'' \<and>
      Body (last (sent (snd (Delete c env urls w)))) = JsonDelete urls \<and>
      Header (last (sent (snd (Delete c env urls w)))) ''Content-Type'' = Some ''application/json'' \<and>
      Header (last (sent (snd (Delete c env urls w)))) ''x-api-version'' = Some (apiVersion c) \<and>
      Header (last (sent (snd (Delete c env urls w)))) ''Authorization'' =
        (if resolvedToken c env ''delete'' (hd urls) = [] then None
         else Some (''Bearer '' @ resolvedToken c env ''delete'' (hd urls))) \<and>
      fst (Delete c env urls w) =
        (case httpClient c (sent w) (last (sent (snd (Delete c env urls w)))) of
           Inl e \<Rightarrow> Some (TransportError e)
         | Inr resp \<Rightarrow> if StatusCode resp = 200 then None else Some (handleError env resp)) \<and>
      (\<forall>resp. httpClient c (sent w) (last (sent (snd (Delete c env urls w)))) = Inr resp \<and>
              StatusCode resp = 200 \<longrightarrow>
              fst (Delete c env urls w) = None))"
proof (cases urls)
  case Nil
  then show ?thesis by (simp add: Delete_def)
next
  case (Cons u us)
  obtain e req w1 where auth:
    "addAuthorizationHeader c env
       (addAPIVersionHeader c (Header_Set ''Content-Type'' ''application/json''
          (NewRequest ''POST'' (getAPIURL c ''/delete'') (JsonDelete urls)))) ''delete'' u w = (e, req, w1)"
    by (cases "addAuthorizationHeader c env
       (addAPIVersionHeader c (Header_Set ''Content-Type'' ''application/json''
          (NewRequest ''POST'' (getAPIURL c ''/delete'') (JsonDelete urls)))) ''delete'' u w") auto
  have w1: "sent w1 = sent w"
    using addAuthorizationHeader_world [OF auth] by simp
  have req: "Method req = ''POST''" "URL req = getAPIURL c ''/delete''" "Body req = JsonDelete urls"
    "Header req ''Content-Type'' = Some ''application/json''"
    "Header req ''x-api-version'' = Some (apiVersion c)"
    "Header req ''Authorization'' =
       (if resolvedToken c env ''delete'' u = [] then None
        else Some (''Bearer '' @ resolvedToken c env ''delete'' u))"
    using addAuthorizationHeader_request [OF auth]
    by (simp_all add: addAPIVersionHeader_def Header_Set_def NewRequest_def)
  have run: "Delete c env urls w =
    (case httpClient c (sent w) req of
       Inl e \<Rightarrow> Some (TransportError e)
     | Inr resp \<Rightarrow> if StatusCode resp \<noteq> 200 then Some (handleError env resp) else None,
     w1\<lparr>sent := sent w @ [req]\<rparr>)"
    using Cons auth w1 by (simp add: Delete_def Let_def Do_def split: sum.splits)
  have nil: "Delete c env [] w = (None, w)"
    by (simp add: Delete_def)
  have hd: "hd urls = u"
    using Cons by simp
  show ?thesis
    using req by (simp add: run nil hd newRequests_def split: sum.splits)
qed

theorem Delete_single_post_witness:
  "Delete (demoClient 200 ''<html>'') demoEnv [] world0 = (None, world0) \<and>
   [''https://store/a'', ''https://store/b''] \<noteq> [] \<and>
   length (newRequests world0
     (snd (Delete (demoClient 200 ''<html>'') demoEnv [''https://store/a'', ''https://store/b''] world0))) = 1 \<and>
   Body (last (sent
     (snd (Delete (demoClient 200 ''<html>'') demoEnv [''https://store/a'', ''https://store/b''] world0)))) =
     JsonDelete [''https://store/a'', ''https://store/b''] \<and>
   Header (last (sent
     (snd (Delete (demoClient 200 ''<html>'') demoEnv [''https://store/a'', ''https://store/b''] world0))))
     ''Authorization'' = Some ''Bearer secret'' \<and>
   fst (Delete (demoClient 200 ''<html>'') demoEnv [''https://store/a'', ''https://store/b''] world0) = None \<and>
   fst (Delete (demoClient 403 ''forbidden-envelope'') demoEnv [''https://store/a''] world0) =
     Some (ApiError ErrForbidden) \<and>
   fst (Delete ((demoClient 200 [])\<lparr>httpClient := (\<lambda>h r. Inl ''connection refused'')\<rparr>) demoEnv
          [''https://store/a''] world0) = Some (TransportError ''connection refused'')"
  using Delete_single_post [where c = "demoClient 200 ''<html>''" and env = demoEnv and w = world0
          and urls = "[''https://store/a'', ''https://store/b'']"]
        Delete_single_post [where c = "demoClient 403 ''forbidden-envelope''" and env = demoEnv
          and w = world0 and urls = "[''https://store/a'']"]
        Delete_single_post [where c = "(demoClient 200 [])\<lparr>httpClient := (\<lambda>h r. Inl ''connection refused'')\<rparr>"
          and env = demoEnv and w = world0 and urls = "[''https://store/a'']"]
  by (simp add: demoClient_def respond_def resolvedToken_def demoEnv_def handleError_def)

section \<open>Authorization\<close>

text \<open>\<^verbatim>\<open>List\<close> sends its query parameters sorted by key.\<close>

lemma List_query_sorted:
  "map (\<lambda>r. UrlQuery (URL r))
     (sent (snd (List_blobs (demoClient 200 ''page'') demoEnv
        \<lparr>Limit = 10, Prefix = ''img/'', ListCursor = ''abc'', Mode = ''folded''\<rparr> world0))) =
   [[(''cursor'', ''abc''), (''limit'', ''10''), (''mode'', ''folded''), (''prefix'', ''img/'')]]"
  by (simp add: List_blobs_def Values_Encode_def build_defs demo_defs utoa.simps digit_def
        less_eq_char_def less_char_def)

text \<open>\<^verbatim>\<open>List\<close> and the single-shot \<^verbatim>\<open>Put\<close> return the error of
  \<^verbatim>\<open>addAuthorizationHeader\<close>: without a token they send nothing.\<close>

lemma List_blocks_without_token:
  assumes "resolvedToken c env ''list'' [] = []" and "newRequestError env (baseURL c) = None"
  shows "fst (List_blobs c env options w) = Inl (ApiError ErrNotAuthenticated) \<and>
         sent (snd (List_blobs c env options w)) = sent w"
proof -
  let ?req = "addAPIVersionHeader c (NewRequest ''GET''
     \<lparr>UrlBase = baseURL c, UrlPath = None,
      UrlQuery = Values_Encode
            ((if Limit options > 0 then [(''limit'', utoa (Limit options))] else [])
            @ (if Prefix options \<noteq> [] then [(''prefix'', Prefix options)] else [])
            @ (if ListCursor options \<noteq> [] then [(''cursor'', ListCursor options)] else [])
            @ (if Mode options \<noteq> [] then [(''mode'', Mode options)] else []))\<rparr> NoBody)"
  obtain e req w1 where auth: "addAuthorizationHeader c env ?req ''list'' [] w = (e, req, w1)"
    by (cases "addAuthorizationHeader c env ?req ''list'' [] w") auto
  have "e = Some ErrNotAuthenticated"
    using addAuthorizationHeader_error [OF auth] assms(1) by auto
  moreover have "sent w1 = sent w"
    using addAuthorizationHeader_world [OF auth] by simp
  ultimately show ?thesis
    using auth assms(2) by (simp add: List_blobs_def Let_def)
qed

lemma Put_blocks_without_token:
  assumes "resolvedToken c env ''put'' pathname = []" and "pathname \<noteq> []"
    and "bodySize body \<le> int MultipartThreshold"
  shows "fst (Put c env pathname body options w) = Inl (ApiError ErrNotAuthenticated) \<and>
         sent (snd (Put c env pathname body options w)) = sent w"
proof -
  let ?req = "addAPIVersionHeader c
     (NewRequest ''PUT'' (getAPIURL c pathname) (Raw (rdData body) (rdEnd body)))"
  obtain e req w1 where auth: "addAuthorizationHeader c env ?req ''put'' pathname w = (e, req, w1)"
    by (cases "addAuthorizationHeader c env ?req ''put'' pathname w") auto
  have "e = Some ErrNotAuthenticated"
    using addAuthorizationHeader_error [OF auth] assms(1) by auto
  moreover have "sent w1 = sent w"
    using addAuthorizationHeader_world [OF auth] by simp
  ultimately show ?thesis
    using auth assms(2,3) by (simp add: Put_def Let_def)
qed

text \<open>
  C2 on \<^verbatim>\<open>Head\<close>: with no token provider and an empty \<^verbatim>\<open>BLOB_READ_WRITE_TOKEN\<close>, no
  token resolves, and still \<^verbatim>\<open>Head\<close> sends its request, without an
  \<^verbatim>\<open>Authorization\<close> header, and returns what the server answers; the error of
  \<^verbatim>\<open>addAuthorizationHeader\<close> is dropped. \<^verbatim>\<open>Delete\<close>, \<^verbatim>\<open>Copy\<close> and \<^verbatim>\<open>Download\<close> do the same.
\<close>

theorem Head_without_token_sends_request:
  "resolvedToken (demoClient 200 ''meta'') (demoEnv\<lparr>BLOB_READ_WRITE_TOKEN := []\<rparr>) ''put'' ''a.txt'' = [] \<and>
   fst (Head (demoClient 200 ''meta'') (demoEnv\<lparr>BLOB_READ_WRITE_TOKEN := []\<rparr>) ''a.txt'' world0) =
     Inr (zeroHeadResult\<lparr>HeadSize := 5\<rparr>) \<and>
   map (\<lambda>r. (Method r, URL r, Header r ''Authorization''))
     (sent (snd (Head (demoClient 200 ''meta'') (demoEnv\<lparr>BLOB_READ_WRITE_TOKEN := []\<rparr>) ''a.txt'' world0))) =
     [(''GET'', getAPIURL (demoClient 200 ''meta'') ''a.txt'', None)] \<and>
   fst (Delete (demoClient 200 []) (demoEnv\<lparr>BLOB_READ_WRITE_TOKEN := []\<rparr>) [''https://store/a''] world0) = None \<and>
   map (\<lambda>r. (Method r, Header r ''Authorization''))
     (sent (snd (Delete (demoClient 200 []) (demoEnv\<lparr>BLOB_READ_WRITE_TOKEN := []\<rparr>) [''https://store/a''] world0))) =
     [(''POST'', None)] \<and>
   map (\<lambda>r. (Method r, Header r ''Authorization''))
     (sent (snd (Copy (demoClient 200 ''stored'') (demoEnv\<lparr>BLOB_READ_WRITE_TOKEN := []\<rparr>)
        ''https://store/a'' ''b.txt'' demoOptions world0))) = [(''PUT'', None)] \<and>
   map (\<lambda>r. (Method r, Header r ''Authorization''))
     (sent (snd (Download (demoClient 200 ''hello'') (demoEnv\<lparr>BLOB_READ_WRITE_TOKEN := []\<rparr>)
        ''https://store/a'' None world0))) = [(''GET'', None)]"
  by (simp add: resolvedToken_def Head_def Delete_def Copy_def Download_def build_defs demo_defs)

section \<open>The multipart coordinator\<close>

subsection \<open>One part, and the three cases of the loop\<close>

lemma uploadPart_run:
  "\<exists>r w1. isPartUpload apiURL cr chunk r \<and> Header r ''X-MPU-Part-Number'' = Some (Itoa pn) \<and>
     sent w1 = sent w @ [r] \<and>
     uploadPart c env pathname apiURL cr chunk parts pn w =
       (case httpClient c (sent w) r of
          Inl e \<Rightarrow> Inl (TransportError e)
        | Inr resp \<Rightarrow>
            if StatusCode resp \<noteq> 200 then Inl (handleError env resp)
            else Inr (parts @ [\<lparr>ETag = Header_Get (RespHeader resp) ''ETag'', PartNumber = pn\<rparr>],
                      int_wrap (pn + 1)),
        w1)"
proof -
  obtain e req w0 where auth:
    "addAuthorizationHeader c env
       (addAPIVersionHeader c (NewRequest ''PUT'' apiURL (Raw chunk EOF))) ''put'' pathname w = (e, req, w0)"
    by (cases "addAuthorizationHeader c env
       (addAPIVersionHeader c (NewRequest ''PUT'' apiURL (Raw chunk EOF))) ''put'' pathname w") auto
  let ?r = "Header_Set ''X-MPU-Part-Number'' (Itoa pn) (Header_Set ''X-MPU-Key'' (Key cr)
     (Header_Set ''X-MPU-Upload-Id'' (UploadID cr) (Header_Set ''X-MPU-Action'' ''upload'' req)))"
  have w0: "sent w0 = sent w"
    using addAuthorizationHeader_world [OF auth] by simp
  have "isPartUpload apiURL cr chunk ?r \<and> Header ?r ''X-MPU-Part-Number'' = Some (Itoa pn)"
    using addAuthorizationHeader_request [OF auth]
    by (simp add: isPartUpload_def addAPIVersionHeader_def Header_Set_def NewRequest_def)
  moreover have "sent (w0\<lparr>sent := sent w0 @ [?r]\<rparr>) = sent w @ [?r]"
    using w0 by simp
  moreover have "uploadPart c env pathname apiURL cr chunk parts pn w =
       (case httpClient c (sent w) ?r of
          Inl e \<Rightarrow> Inl (TransportError e)
        | Inr resp \<Rightarrow>
            if StatusCode resp \<noteq> 200 then Inl (handleError env resp)
            else Inr (parts @ [\<lparr>ETag = Header_Get (RespHeader resp) ''ETag'', PartNumber = pn\<rparr>],
                      int_wrap (pn + 1)),
        w0\<lparr>sent := sent w0 @ [?r]\<rparr>)"
    using auth w0 by (simp add: uploadPart_def Let_def Do_def split: sum.splits)
  ultimately show ?thesis by blast
qed

lemma uploadParts_empty:
  "rdData body = [] \<Longrightarrow>
   uploadParts c env pathname apiURL cr body parts pn w =
     (if rdEnd body = EOF \<or> rdEnd body = ErrUnexpectedEOF then Inr parts
      else Inl (ReadError (rdEnd body)), w)"
  by (subst uploadParts.simps) (simp add: ReadFull_def MultipartThreshold_def)

lemma uploadParts_short:
  "rdData body \<noteq> [] \<Longrightarrow> length (rdData body) < MultipartThreshold \<Longrightarrow>
   uploadParts c env pathname apiURL cr body parts pn w =
     (case uploadPart c env pathname apiURL cr (rdData body) parts pn w of
        (Inl e, w') \<Rightarrow> (Inl e, w')
      | (Inr (parts', pn'), w') \<Rightarrow>
          (if rdEnd body = EOF \<or> rdEnd body = ErrUnexpectedEOF then Inr parts'
           else Inl (ReadError (rdEnd body)), w'))"
  by (subst uploadParts.simps) (auto simp: ReadFull_def split: prod.splits sum.splits)

lemma uploadParts_full:
  "MultipartThreshold \<le> length (rdData body) \<Longrightarrow>
   uploadParts c env pathname apiURL cr body parts pn w =
     (case uploadPart c env pathname apiURL cr (take MultipartThreshold (rdData body)) parts pn w of
        (Inl e, w') \<Rightarrow> (Inl e, w')
      | (Inr (parts', pn'), w') \<Rightarrow>
          uploadParts c env pathname apiURL cr
            (body\<lparr>rdData := drop MultipartThreshold (rdData body)\<rparr>) parts' pn' w')"
  by (subst uploadParts.simps) (auto simp: ReadFull_def MultipartThreshold_def split: prod.splits sum.splits)

lemma uploadPart_cases:
  obtains (fail) r w1 e where
      "isPartUpload apiURL cr chunk r" "Header r ''X-MPU-Part-Number'' = Some (Itoa pn)"
      "sent w1 = sent w @ [r]"
      "uploadPart c env pathname apiURL cr chunk parts pn w = (Inl e, w1)"
      "stopsAtFailure c env (sent w) [r] (Some e)"
      "\<nexists>resp. httpClient c (sent w) r = Inr resp \<and> StatusCode resp = 200"
  | (ok) r w1 etag where
      "isPartUpload apiURL cr chunk r" "Header r ''X-MPU-Part-Number'' = Some (Itoa pn)"
      "sent w1 = sent w @ [r]"
      "uploadPart c env pathname apiURL cr chunk parts pn w =
         (Inr (parts @ [\<lparr>ETag = etag, PartNumber = pn\<rparr>], int_wrap (pn + 1)), w1)"
      "\<And>rs eo. stopsAtFailure c env (sent w) (r # rs) eo = stopsAtFailure c env (sent w1) rs eo"
proof -
  obtain r w1 where r: "isPartUpload apiURL cr chunk r"
      "Header r ''X-MPU-Part-Number'' = Some (Itoa pn)" "sent w1 = sent w @ [r]"
      "uploadPart c env pathname apiURL cr chunk parts pn w =
       (case httpClient c (sent w) r of
          Inl e \<Rightarrow> Inl (TransportError e)
        | Inr resp \<Rightarrow>
            if StatusCode resp \<noteq> 200 then Inl (handleError env resp)
            else Inr (parts @ [\<lparr>ETag = Header_Get (RespHeader resp) ''ETag'', PartNumber = pn\<rparr>],
                      int_wrap (pn + 1)),
        w1)"
    using uploadPart_run [of apiURL cr chunk pn w c env pathname parts] by blast
  show thesis
  proof (cases "httpClient c (sent w) r")
    case (Inl e)
    show thesis
      by (rule fail [of r w1 "TransportError e"]) (use r Inl in simp_all)
  next
    case (Inr resp)
    show thesis
    proof (cases "StatusCode resp = 200")
      case True
      show thesis
        by (rule ok [of r w1 "Header_Get (RespHeader resp) ''ETag''"]) (use r Inr True in simp_all)
    next
      case False
      show thesis
        by (rule fail [of r w1 "handleError env resp"]) (use r Inr False in simp_all)
    qed
  qed
qed

lemma chunks_Nil: "chunks k [] = []"
  by (simp add: chunks.simps)

lemma chunks_short: "xs \<noteq> [] \<Longrightarrow> length xs < k \<Longrightarrow> chunks k xs = [xs]"
  by (subst chunks.simps) (simp add: chunks_Nil)

lemma chunks_full: "0 < k \<Longrightarrow> k \<le> length xs \<Longrightarrow> chunks k xs = take k xs # chunks k (drop k xs)"
  by (subst chunks.simps) auto

lemma MultipartThreshold_pos: "0 < MultipartThreshold"
  by (simp add: MultipartThreshold_def)

lemma uploadParts_trace:
  "uploadParts c env pathname apiURL cr body parts pn w = (res, w') \<Longrightarrow>
   \<exists>new. sent w' = sent w @ new \<and>
     length new \<le> length (chunks MultipartThreshold (rdData body)) \<and>
     (\<forall>i<length new. isPartUpload apiURL cr (chunks MultipartThreshold (rdData body) ! i) (new ! i)) \<and>
     stopsAtFailure c env (sent w) new (errOf res) \<and>
     (rdData body \<noteq> [] \<longrightarrow> new \<noteq> []) \<and>
     (\<forall>ps. res = Inr ps \<longrightarrow>
        length new = length (chunks MultipartThreshold (rdData body)) \<and>
        (rdEnd body = EOF \<or> rdEnd body = ErrUnexpectedEOF))"
proof (induction "length (rdData body)" arbitrary: body parts pn w rule: less_induct)
  case less
  let ?T = MultipartThreshold
  consider (empty) "rdData body = []"
    | (short) "rdData body \<noteq> []" "length (rdData body) < ?T"
    | (full) "?T \<le> length (rdData body)"
    by fastforce
  then show ?case
  proof cases
    case empty
    have "sent w' = sent w @ []" "res = Inr parts \<or> (\<exists>e. res = Inl e)"
      "\<forall>ps. res = Inr ps \<longrightarrow> rdEnd body = EOF \<or> rdEnd body = ErrUnexpectedEOF"
      using less.prems empty by (auto simp: uploadParts_empty split: if_splits)
    then show ?thesis
      using empty by (intro exI [of _ "[]"]) (auto simp: chunks_Nil)
  next
    case short
    note ch = chunks_short [OF short]
    show ?thesis
    proof (cases rule: uploadPart_cases [of apiURL cr "rdData body" pn w c env pathname parts])
      case (fail r w1 e)
      have "res = Inl e" "w' = w1"
        using less.prems short fail(4) by (simp_all add: uploadParts_short)
      then show ?thesis
        using fail ch by (intro exI [of _ "[r]"]) (simp add: errOf_def)
    next
      case (ok r w1 etag)
      have "w' = w1" "res = Inr (parts @ [\<lparr>ETag = etag, PartNumber = pn\<rparr>]) \<or> (\<exists>e. res = Inl (ReadError e))"
        "\<forall>ps. res = Inr ps \<longrightarrow> rdEnd body = EOF \<or> rdEnd body = ErrUnexpectedEOF"
        using less.prems short ok(4) by (auto simp: uploadParts_short split: if_splits)
      then show ?thesis
        using ok ch by (intro exI [of _ "[r]"]) (auto simp: errOf_def)
    qed
  next
    case full
    note ch = chunks_full [OF MultipartThreshold_pos full]
    show ?thesis
    proof (cases rule: uploadPart_cases [of apiURL cr "take ?T (rdData body)" pn w c env pathname parts])
      case (fail r w1 e)
      have "res = Inl e" "w' = w1"
        using less.prems full fail(4) by (simp_all add: uploadParts_full)
      then show ?thesis
        using fail ch by (intro exI [of _ "[r]"]) (simp add: errOf_def)
    next
      case (ok r w1 etag)
      let ?body = "body\<lparr>rdData := drop ?T (rdData body)\<rparr>"
      have run: "uploadParts c env pathname apiURL cr ?body
                   (parts @ [\<lparr>ETag = etag, PartNumber = pn\<rparr>]) (int_wrap (pn + 1)) w1 = (res, w')"
        using less.prems full ok(4) by (simp add: uploadParts_full)
      have "length (rdData ?body) < length (rdData body)"
        using full MultipartThreshold_pos by simp
      from less.hyps [OF this run] obtain new where new:
        "sent w' = sent w1 @ new"
        "length new \<le> length (chunks ?T (drop ?T (rdData body)))"
        "\<forall>i<length new. isPartUpload apiURL cr (chunks ?T (drop ?T (rdData body)) ! i) (new ! i)"
        "stopsAtFailure c env (sent w1) new (errOf res)"
        "\<forall>ps. res = Inr ps \<longrightarrow> length new = length (chunks ?T (drop ?T (rdData body))) \<and>
           (rdEnd body = EOF \<or> rdEnd body = ErrUnexpectedEOF)"
        by auto
      have "\<forall>i<length (r # new). isPartUpload apiURL cr (chunks ?T (rdData body) ! i) ((r # new) ! i)"
        using new(3) ok(1) by (auto simp: ch nth_Cons split: nat.splits)
      then show ?thesis
        using new ok(3,5) ch by (intro exI [of _ "r # new"]) simp
    qed
  qed
qed

lemma uploadParts_new:
  assumes "uploadParts c env pathname apiURL cr body parts pn w = (res, w')"
  shows "sent w' = sent w @ newRequests w w'"
    and "length (newRequests w w') \<le> length (chunks MultipartThreshold (rdData body))"
    and "\<forall>i<length (newRequests w w').
           isPartUpload apiURL cr (chunks MultipartThreshold (rdData body) ! i) (newRequests w w' ! i)"
    and "stopsAtFailure c env (sent w) (newRequests w w') (errOf res)"
    and "\<forall>ps. res = Inr ps \<longrightarrow>
           length (newRequests w w') = length (chunks MultipartThreshold (rdData body)) \<and>
           (rdEnd body = EOF \<or> rdEnd body = ErrUnexpectedEOF)"
    and "rdData body \<noteq> [] \<longrightarrow> newRequests w w' \<noteq> []"
  using uploadParts_trace [OF assms] by (auto simp: newRequests_def)


lemma newRequests_Cons:
  "sent w1 = sent w @ [r] \<Longrightarrow> sent w' = sent w1 @ new \<Longrightarrow> newRequests w w' = r # newRequests w1 w'"
  by (simp add: newRequests_def)


lemma setPutHeaders_request:
  "Method (setPutHeaders options req) = Method req"
  "URL (setPutHeaders options req) = URL req"
  "Body (setPutHeaders options req) = Body req"
  "Header (setPutHeaders options req) ''X-MPU-Action'' = Header req ''X-MPU-Action''"
  by (simp_all add: setPutHeaders_def Header_Set_def Let_def)

lemma putMultipart_cases:
  assumes run: "putMultipart c env pathname body options w = (res, w')"
  obtains (createFailed) creq e where
      "isCreateRequest (getAPIURL c ''/mpu'') creq"
      "sent w' = sent w @ [creq]" "res = Inl e"
      "stopsAtFailure c env (sent w) [creq] (Some e)"
      "\<nexists>resp. httpClient c (sent w) creq = Inr resp \<and> StatusCode resp = 200"
  | (uploadFailed) creq w1 resp e where
      "isCreateRequest (getAPIURL c ''/mpu'') creq"
      "sent w1 = sent w @ [creq]"
      "httpClient c (sent w) creq = Inr resp" "StatusCode resp = 200"
      "uploadParts c env pathname (getAPIURL c ''/mpu'')
         (fst (decodeCreateResponse env (RespBody resp))) body [] 1 w1 = (Inl e, w')"
      "res = Inl e"
  | (completed) creq w1 resp parts w2 kreq where
      "isCreateRequest (getAPIURL c ''/mpu'') creq"
      "sent w1 = sent w @ [creq]"
      "httpClient c (sent w) creq = Inr resp" "StatusCode resp = 200"
      "uploadParts c env pathname (getAPIURL c ''/mpu'')
         (fst (decodeCreateResponse env (RespBody resp))) body [] 1 w1 = (Inr parts, w2)"
      "isCompleteRequest (getAPIURL c ''/mpu'') (fst (decodeCreateResponse env (RespBody resp))) parts kreq"
      "sent w' = sent w2 @ [kreq]"
      "res = (case httpClient c (sent w2) kreq of
                Inl e \<Rightarrow> Inl (TransportError e)
              | Inr resp2 \<Rightarrow>
                  if StatusCode resp2 \<noteq> 200 then Inl (handleError env resp2)
                  else Inr (fst (decodePutResult env (RespBody resp2))))"
proof -
  let ?u = "getAPIURL c ''/mpu''"
  obtain e0 req0 w0 where auth:
    "addAuthorizationHeader c env (addAPIVersionHeader c (NewRequest ''POST'' ?u NoBody))
       ''put'' pathname w = (e0, req0, w0)"
    by (cases "addAuthorizationHeader c env (addAPIVersionHeader c (NewRequest ''POST'' ?u NoBody))
       ''put'' pathname w") auto
  let ?creq = "Header_Set ''X-MPU-Action'' ''create'' (setPutHeaders options req0)"
  let ?w1 = "w0\<lparr>sent := sent w0 @ [?creq]\<rparr>"
  have w0: "sent w0 = sent w"
    using addAuthorizationHeader_world [OF auth] by simp
  have creq: "isCreateRequest ?u ?creq"
    using addAuthorizationHeader_request [OF auth]
    by (simp add: isCreateRequest_def Header_Set_def setPutHeaders_request
          addAPIVersionHeader_def NewRequest_def)
  have w1: "sent ?w1 = sent w @ [?creq]"
    using w0 by simp
  show thesis
  proof (cases "httpClient c (sent w) ?creq")
    case (Inl e)
    have "res = Inl (TransportError e)" "w' = ?w1"
      using run auth w0 Inl by (simp_all add: putMultipart_def Let_def Do_def)
    then show thesis
      using createFailed [of ?creq "TransportError e"] creq w1 Inl by simp
  next
    case (Inr resp)
    show thesis
    proof (cases "StatusCode resp = 200")
      case False
      have "res = Inl (handleError env resp)" "w' = ?w1"
        using run auth w0 Inr False by (simp_all add: putMultipart_def Let_def Do_def)
      then show thesis
        using createFailed [of ?creq "handleError env resp"] creq w1 Inr False by simp
    next
      case True
      let ?cr = "fst (decodeCreateResponse env (RespBody resp))"
      obtain r2 w2 where loop: "uploadParts c env pathname ?u ?cr body [] 1 ?w1 = (r2, w2)"
        by (cases "uploadParts c env pathname ?u ?cr body [] 1 ?w1") auto
      show thesis
      proof (cases r2)
        case (Inl e)
        have "res = Inl e" "w' = w2"
          using run auth w0 Inr True loop Inl by (simp_all add: putMultipart_def Let_def Do_def)
        then show thesis
          using uploadFailed [of ?creq ?w1 resp e] creq w1 Inr True loop Inl by simp
      next
        case parts: (Inr parts)
        obtain e3 req3 w3 where auth3:
          "addAuthorizationHeader c env (addAPIVersionHeader c (NewRequest ''POST'' ?u
             (JsonComplete \<lparr>CompleteUploadID = UploadID ?cr, CompleteKey = Key ?cr, Parts = parts\<rparr>)))
             ''put'' pathname w2 = (e3, req3, w3)"
          by (cases "addAuthorizationHeader c env (addAPIVersionHeader c (NewRequest ''POST'' ?u
             (JsonComplete \<lparr>CompleteUploadID = UploadID ?cr, CompleteKey = Key ?cr, Parts = parts\<rparr>)))
             ''put'' pathname w2") auto
        let ?kreq = "Header_Set ''X-MPU-Action'' ''complete'' req3"
        have w3: "sent w3 = sent w2"
          using addAuthorizationHeader_world [OF auth3] by simp
        have kreq: "isCompleteRequest ?u ?cr parts ?kreq"
          using addAuthorizationHeader_request [OF auth3]
          by (simp add: isCompleteRequest_def Header_Set_def addAPIVersionHeader_def NewRequest_def)
        have "w' = w3\<lparr>sent := sent w3 @ [?kreq]\<rparr>"
          "res = (case httpClient c (sent w2) ?kreq of
                Inl e \<Rightarrow> Inl (TransportError e)
              | Inr resp2 \<Rightarrow>
                  if StatusCode resp2 \<noteq> 200 then Inl (handleError env resp2)
                  else Inr (fst (decodePutResult env (RespBody resp2))))"
          using run auth w0 Inr True loop parts auth3 w3
          by (auto simp: putMultipart_def Let_def Do_def split: sum.splits if_splits)
        then show thesis
          using completed [of ?creq ?w1 resp parts w2 ?kreq] creq w1 Inr True loop parts kreq w3
          by simp
      qed
    qed
  qed
qed

subsection \<open>Chunks\<close>




lemma all_part_uploads:
  "\<forall>i<length rs. isPartUpload u cr (chs ! i) (rs ! i) \<Longrightarrow>
   [r \<leftarrow> rs. Header r ''X-MPU-Action'' = Some ''upload''] = rs"
  by (auto simp: filter_id_conv in_set_conv_nth isPartUpload_def)

lemma newRequests_append:
  "sent w' = sent w @ rs \<Longrightarrow> newRequests w w' = rs"
  by (simp add: newRequests_def)

subsection \<open>Part numbers\<close>


subsection \<open>Concrete runs\<close>

lemmas run_defs =
  putMultipart_def uploadParts.simps uploadPart_def ReadFull_def MultipartThreshold_def
  int_wrap_def Itoa_def utoa.simps digit_def build_defs demo_defs mpuClient_def mpuServer_def





subsection \<open>Failures\<close>

lemma stopsAtFailure_append:
  "stopsAtFailure c env h rs None \<Longrightarrow>
   stopsAtFailure c env h (rs @ rs') eo = stopsAtFailure c env (h @ rs) rs' eo"
  by (induction rs arbitrary: h) (auto split: sum.splits if_splits)

lemma uploadParts_read_failure:
  "uploadParts c env pathname apiURL cr body parts pn w = (res, w') \<Longrightarrow>
   rdEnd body = ReadFailure s \<Longrightarrow>
   \<forall>h r. \<exists>resp. httpClient c h r = Inr resp \<and> StatusCode resp = 200 \<Longrightarrow>
   res = Inl (ReadError (ReadFailure s))"
proof (induction "length (rdData body)" arbitrary: body parts pn w rule: less_induct)
  case less
  let ?T = MultipartThreshold
  consider (empty) "rdData body = []"
    | (short) "rdData body \<noteq> []" "length (rdData body) < ?T"
    | (full) "?T \<le> length (rdData body)"
    by fastforce
  then show ?case
  proof cases
    case empty
    then show ?thesis
      using less.prems(1,2) by (simp add: uploadParts_empty)
  next
    case short
    show ?thesis
    proof (cases rule: uploadPart_cases [of apiURL cr "rdData body" pn w c env pathname parts])
      case (fail r w1 e)
      then show ?thesis using less.prems(3) by blast
    next
      case (ok r w1 etag)
      then show ?thesis
        using less.prems(1,2) short by (simp add: uploadParts_short)
    qed
  next
    case full
    show ?thesis
    proof (cases rule: uploadPart_cases [of apiURL cr "take ?T (rdData body)" pn w c env pathname parts])
      case (fail r w1 e)
      then show ?thesis using less.prems(3) by blast
    next
      case (ok r w1 etag)
      let ?body = "body\<lparr>rdData := drop ?T (rdData body)\<rparr>"
      have run: "uploadParts c env pathname apiURL cr ?body
                   (parts @ [\<lparr>ETag = etag, PartNumber = pn\<rparr>]) (int_wrap (pn + 1)) w1 = (res, w')"
        using less.prems(1) full ok(4) by (simp add: uploadParts_full)
      have shorter: "length (rdData ?body) < length (rdData body)"
        using full MultipartThreshold_pos by simp
      show ?thesis
        using less.hyps [OF shorter run _ less.prems(3)] less.prems(2) by simp
    qed
  qed
qed

lemma handleError_not_ReadError: "handleError env resp \<noteq> ReadError x"
  by (simp add: handleError_def Let_def split: prod.splits option.splits)

lemma failure_not_ReadError:
  "stopsAtFailure c env h [r] (Some e) \<Longrightarrow>
   \<nexists>resp. httpClient c h r = Inr resp \<and> StatusCode resp = 200 \<Longrightarrow> e \<noteq> ReadError x"
  using handleError_not_ReadError by (auto split: sum.splits if_splits)

lemma uploadParts_reader_error:
  "uploadParts c env pathname apiURL cr body parts pn w = (Inl (ReadError x), w') \<Longrightarrow>
   x = rdEnd body \<and>
   length (newRequests w w') = length (chunks MultipartThreshold (rdData body))"
proof (induction "length (rdData body)" arbitrary: body parts pn w rule: less_induct)
  case less
  let ?T = MultipartThreshold
  consider (empty) "rdData body = []"
    | (short) "rdData body \<noteq> []" "length (rdData body) < ?T"
    | (full) "?T \<le> length (rdData body)"
    by fastforce
  then show ?case
  proof cases
    case empty
    then show ?thesis
      using less.prems by (auto simp: uploadParts_empty chunks_Nil newRequests_def split: if_splits)
  next
    case short
    note ch = chunks_short [OF short]
    show ?thesis
    proof (cases rule: uploadPart_cases [of apiURL cr "rdData body" pn w c env pathname parts])
      case (fail r w1 e)
      have "e = ReadError x"
        using less.prems short fail(4) by (simp add: uploadParts_short)
      then show ?thesis
        using failure_not_ReadError [OF fail(5,6)] by simp
    next
      case (ok r w1 etag)
      then show ?thesis
        using less.prems short ch by (auto simp: uploadParts_short newRequests_def split: if_splits)
    qed
  next
    case full
    note ch = chunks_full [OF MultipartThreshold_pos full]
    show ?thesis
    proof (cases rule: uploadPart_cases [of apiURL cr "take ?T (rdData body)" pn w c env pathname parts])
      case (fail r w1 e)
      have "e = ReadError x"
        using less.prems full fail(4) by (simp add: uploadParts_full)
      then show ?thesis
        using failure_not_ReadError [OF fail(5,6)] by simp
    next
      case (ok r w1 etag)
      let ?body = "body\<lparr>rdData := drop ?T (rdData body)\<rparr>"
      have run: "uploadParts c env pathname apiURL cr ?body
                   (parts @ [\<lparr>ETag = etag, PartNumber = pn\<rparr>]) (int_wrap (pn + 1)) w1 =
                 (Inl (ReadError x), w')"
        using less.prems full ok(4) by (simp add: uploadParts_full)
      have shorter: "length (rdData ?body) < length (rdData body)"
        using full MultipartThreshold_pos by simp
      have new: "newRequests w w' = r # newRequests w1 w'"
        using ok(3) uploadParts_new(1) [OF run] by (rule newRequests_Cons)
      show ?thesis
        using less.hyps [OF shorter run] by (simp add: new ch)
    qed
  qed
qed

lemma part_upload_bodies:
  "\<forall>i<length rs. isPartUpload u cr (chs ! i) (rs ! i) \<Longrightarrow> length rs = length chs \<Longrightarrow>
   map Body rs = map (\<lambda>ch. Raw ch EOF) chs"
  by (auto simp: list_eq_iff_nth_eq isPartUpload_def)

lemma part_upload_action:
  "\<forall>i<length rs. isPartUpload u cr (chs ! i) (rs ! i) \<Longrightarrow> r \<in> set rs \<Longrightarrow>
   Method r = ''PUT'' \<and> URL r = u \<and> Header r ''X-MPU-Action'' = Some ''upload'' \<and>
   Header r ''X-MPU-Upload-Id'' = Some (UploadID cr) \<and> Header r ''X-MPU-Key'' = Some (Key cr)"
  by (auto simp: in_set_conv_nth isPartUpload_def)

text \<open>
  C5, as the spec states it, fails on a read failure: the loop uploads the bytes that
  \<^verbatim>\<open>io.ReadFull\<close> returned together with the error before it looks at the error, so one
  more request follows the failed read; and a reader that reports
  \<^verbatim>\<open>io.ErrUnexpectedEOF\<close> itself ends the loop as the end of the stream does.
\<close>

theorem multipart_read_failure_counterexample:
  "fst (ReadFull failingBody MultipartThreshold) = [1, 2, 3] \<and>
   fst (snd (ReadFull failingBody MultipartThreshold)) = Some (ReadFailure ''connection reset'') \<and>
   map (\<lambda>r. (Header r ''X-MPU-Action'', Body r))
     (sent (snd (putMultipart mpuClient demoEnv ''big.bin'' failingBody demoOptions world0))) =
     [(Some ''create'', NoBody), (Some ''upload'', Raw [1, 2, 3] EOF)] \<and>
   fst (putMultipart mpuClient demoEnv ''big.bin'' failingBody demoOptions world0) =
     Inl (ReadError (ReadFailure ''connection reset'')) \<and>
   fst (snd (ReadFull truncatedBody MultipartThreshold)) = Some ErrUnexpectedEOF \<and>
   fst (putMultipart mpuClient demoEnv ''big.bin'' truncatedBody demoOptions world0) =
     Inr (zeroPutResult\<lparr>ResultURL := ''https://store/a''\<rparr>)"
  by (simp add: run_defs)

text \<open>
  C5, amended. Along the requests of a multipart upload, the first request that the
  transport fails or that is answered with a status other than 200 (the create request,
  an upload or the complete request) is the last request sent, and the call returns the
  error of that failure and no result. Every request sent is a create, an upload or a
  complete request: there is no rollback request. When the reader ends with an error
  other than \<^verbatim>\<open>io.EOF\<close> and \<^verbatim>\<open>io.ErrUnexpectedEOF\<close>, the call returns an error and no
  result and sends no complete request, so that the part list is never sent; when every
  request is answered with status 200, that error is the reader's. And whenever the call
  returns a read error, it is the error the reader ends with, and the requests sent are
  the create request and then one upload for every chunk of the stream, the bytes read
  before the failure among them as the last part: the read failure ends the call only
  after those bytes are uploaded.
\<close>

theorem multipart_abort:
  assumes run: "putMultipart c env pathname body options w = (res, w')"
  shows "stopsAtFailure c env (sent w) (newRequests w w') (errOf res) \<and>
         (\<forall>r\<in>set (newRequests w w').
            Header r ''X-MPU-Action'' = Some ''create'' \<or>
            Header r ''X-MPU-Action'' = Some ''upload'' \<or>
            Header r ''X-MPU-Action'' = Some ''complete'') \<and>
         (\<forall>s. rdEnd body = ReadFailure s \<longrightarrow>
            (\<exists>e. res = Inl e) \<and>
            (\<forall>r\<in>set (newRequests w w'). Header r ''X-MPU-Action'' \<noteq> Some ''complete'') \<and>
            ((\<forall>h r. \<exists>resp. httpClient c h r = Inr resp \<and> StatusCode resp = 200) \<longrightarrow>
               res = Inl (ReadError (ReadFailure s)))) \<and>
         (\<forall>x. res = Inl (ReadError x) \<longrightarrow>
            x = rdEnd body \<and>
            map Body [r \<leftarrow> newRequests w w'. Header r ''X-MPU-Action'' = Some ''upload''] =
              map (\<lambda>ch. Raw ch EOF) (chunks MultipartThreshold (rdData body)) \<and>
            map (\<lambda>r. Header r ''X-MPU-Action'') (newRequests w w') =
              Some ''create'' #
              replicate (length (chunks MultipartThreshold (rdData body))) (Some ''upload''))"
  using run
proof (cases rule: putMultipart_cases)
  case (createFailed creq e)
  have new: "newRequests w w' = [creq]"
    using createFailed(2) by (rule newRequests_append)
  have "res \<noteq> Inl (ReadError x)" for x
    using failure_not_ReadError [OF createFailed(4,5)] createFailed(3) by simp
  then show ?thesis
    using createFailed(1,3,4,5) by (auto simp: new errOf_def isCreateRequest_def)
next
  case (uploadFailed creq w1 resp e)
  note loop = uploadParts_new [OF uploadFailed(5)]
  have new: "newRequests w w' = creq # newRequests w1 w'"
    using uploadFailed(2) loop(1) by (rule newRequests_Cons)
  have stops: "stopsAtFailure c env (sent w) (newRequests w w') (errOf res)"
    using loop(4) uploadFailed(2,3,4,6) by (simp add: new errOf_def)
  have actions: "\<forall>r\<in>set (newRequests w1 w'). Header r ''X-MPU-Action'' = Some ''upload''"
    using part_upload_action [OF loop(3)] by blast
  have ups: "[r \<leftarrow> newRequests w w'. Header r ''X-MPU-Action'' = Some ''upload''] = newRequests w1 w'"
    using uploadFailed(1) all_part_uploads [OF loop(3)] by (simp add: new isCreateRequest_def)
  have acts: "map (\<lambda>r. Header r ''X-MPU-Action'') (newRequests w1 w') =
              replicate (length (newRequests w1 w')) (Some ''upload'')"
    using actions by (simp add: map_replicate_const [symmetric] cong: map_cong)
  have "res = Inl (ReadError (ReadFailure s))"
    if "rdEnd body = ReadFailure s" "\<forall>h r. \<exists>resp. httpClient c h r = Inr resp \<and> StatusCode resp = 200"
    for s
    using uploadParts_read_failure [OF uploadFailed(5) that] uploadFailed(6) by simp
  moreover have "x = rdEnd body \<and>
      map Body [r \<leftarrow> newRequests w w'. Header r ''X-MPU-Action'' = Some ''upload''] =
        map (\<lambda>ch. Raw ch EOF) (chunks MultipartThreshold (rdData body)) \<and>
      map (\<lambda>r. Header r ''X-MPU-Action'') (newRequests w w') =
        Some ''create'' #
        replicate (length (chunks MultipartThreshold (rdData body))) (Some ''upload'')"
    if "res = Inl (ReadError x)" for x
  proof -
    have run': "uploadParts c env pathname (getAPIURL c ''/mpu'')
         (fst (decodeCreateResponse env (RespBody resp))) body [] 1 w1 = (Inl (ReadError x), w')"
      using that uploadFailed(5,6) by simp
    note all = uploadParts_reader_error [OF run']
    have bodies: "map Body [r \<leftarrow> newRequests w w'. Header r ''X-MPU-Action'' = Some ''upload''] =
        map (\<lambda>ch. Raw ch EOF) (chunks MultipartThreshold (rdData body))"
      unfolding ups using all part_upload_bodies [OF loop(3)] by simp
    have "map (\<lambda>r. Header r ''X-MPU-Action'') (newRequests w w') =
        Some ''create'' #
        replicate (length (chunks MultipartThreshold (rdData body))) (Some ''upload'')"
      using all acts uploadFailed(1) by (simp add: new isCreateRequest_def)
    then show ?thesis
      using all bodies by simp
  qed
  ultimately show ?thesis
    using stops actions uploadFailed(1,6) by (auto simp: new isCreateRequest_def)
next
  case (completed creq w1 resp parts w2 kreq)
  note loop = uploadParts_new [OF completed(5)]
  have "sent w' = sent w @ (creq # newRequests w1 w2 @ [kreq])"
    using completed(2,7) loop(1) by simp
  then have new: "newRequests w w' = creq # newRequests w1 w2 @ [kreq]"
    by (rule newRequests_append)
  have "stopsAtFailure c env (sent w1) (newRequests w1 w2) None"
    using loop(4) by (simp add: errOf_def)
  then have "stopsAtFailure c env (sent w1) (newRequests w1 w2 @ [kreq]) (errOf res) =
             stopsAtFailure c env (sent w2) [kreq] (errOf res)"
    using loop(1) by (simp add: stopsAtFailure_append)
  moreover have "stopsAtFailure c env (sent w2) [kreq] (errOf res)"
    by (simp add: completed(8) errOf_def split: sum.splits)
  ultimately have stops: "stopsAtFailure c env (sent w) (newRequests w w') (errOf res)"
    using completed(2,3,4) by (simp add: new)
  have actions: "\<forall>r\<in>set (newRequests w1 w2). Header r ''X-MPU-Action'' = Some ''upload''"
    using part_upload_action [OF loop(3)] by blast
  have eof: "rdEnd body = EOF \<or> rdEnd body = ErrUnexpectedEOF"
    using loop(5) by simp
  have "res \<noteq> Inl (ReadError x)" for x
    using handleError_not_ReadError by (auto simp: completed(8) split: sum.splits)
  then show ?thesis
    using stops actions eof completed(1,6)
    by (auto simp: new isCreateRequest_def isCompleteRequest_def)
qed

theorem multipart_abort_witness:
  "fst (putMultipart flakyClient demoEnv ''big.bin'' twoChunkBody demoOptions world0) =
     Inl (ApiError (NewUnknownError 503 ''Service Unavailable'')) \<and>
   map (\<lambda>r. (Header r ''X-MPU-Action'', Header r ''X-MPU-Part-Number''))
     (newRequests world0 (snd (putMultipart flakyClient demoEnv ''big.bin'' twoChunkBody demoOptions world0))) =
     [(Some ''create'', None), (Some ''upload'', Some ''1''), (Some ''upload'', Some ''2'')] \<and>
   stopsAtFailure flakyClient demoEnv (sent world0)
     (newRequests world0 (snd (putMultipart flakyClient demoEnv ''big.bin'' twoChunkBody demoOptions world0)))
     (Some (ApiError (NewUnknownError 503 ''Service Unavailable''))) \<and>
   rdEnd failingBody = ReadFailure ''connection reset'' \<and>
   (\<forall>h r. \<exists>resp. httpClient mpuClient h r = Inr resp \<and> StatusCode resp = 200) \<and>
   fst (putMultipart mpuClient demoEnv ''big.bin'' failingBody demoOptions world0) =
     Inl (ReadError (ReadFailure ''connection reset'')) \<and>
   chunks MultipartThreshold (rdData failingBody) = [[1, 2, 3]] \<and>
   map Body [r \<leftarrow> newRequests world0
                    (snd (putMultipart mpuClient demoEnv ''big.bin'' failingBody demoOptions world0)).
               Header r ''X-MPU-Action'' = Some ''upload''] = [Raw [1, 2, 3] EOF] \<and>
   map (\<lambda>r. Header r ''X-MPU-Action'')
     (newRequests world0 (snd (putMultipart mpuClient demoEnv ''big.bin'' failingBody demoOptions world0))) =
     [Some ''create'', Some ''upload'']"
proof -
  have run1: "putMultipart flakyClient demoEnv ''big.bin'' twoChunkBody demoOptions world0 =
     (fst (putMultipart flakyClient demoEnv ''big.bin'' twoChunkBody demoOptions world0),
      snd (putMultipart flakyClient demoEnv ''big.bin'' twoChunkBody demoOptions world0))"
    by simp
  have run2: "putMultipart mpuClient demoEnv ''big.bin'' failingBody demoOptions world0 =
     (fst (putMultipart mpuClient demoEnv ''big.bin'' failingBody demoOptions world0),
      snd (putMultipart mpuClient demoEnv ''big.bin'' failingBody demoOptions world0))"
    by simp
  have res: "fst (putMultipart flakyClient demoEnv ''big.bin'' twoChunkBody demoOptions world0) =
     Inl (ApiError (NewUnknownError 503 ''Service Unavailable''))"
    by (simp add: run_defs flakyClient_def handleError_def)
  have trace: "map (\<lambda>r. (Header r ''X-MPU-Action'', Header r ''X-MPU-Part-Number''))
     (newRequests world0 (snd (putMultipart flakyClient demoEnv ''big.bin'' twoChunkBody demoOptions world0))) =
     [(Some ''create'', None), (Some ''upload'', Some ''1''), (Some ''upload'', Some ''2'')]"
    by (simp add: run_defs flakyClient_def handleError_def newRequests_def)
  have ok: "\<forall>h r. \<exists>resp. httpClient mpuClient h r = Inr resp \<and> StatusCode resp = 200"
    by (simp add: mpuClient_def mpuServer_def demoClient_def respond_def)
  have fails: "rdEnd failingBody = ReadFailure ''connection reset''"
    by (simp add: failingBody_def)
  have chs: "chunks MultipartThreshold (rdData failingBody) = [[1, 2, 3]]"
    by (simp add: chunks_short failingBody_def MultipartThreshold_def)
  note first = multipart_abort [OF run1, THEN conjunct1]
  note third = multipart_abort [OF run2, THEN conjunct2, THEN conjunct2, THEN conjunct1,
    THEN spec, THEN mp, OF fails, THEN conjunct2, THEN conjunct2, THEN mp, OF ok]
  note fourth = multipart_abort [OF run2, THEN conjunct2, THEN conjunct2, THEN conjunct2,
    THEN spec, THEN mp, OF third]
  have stops: "stopsAtFailure flakyClient demoEnv (sent world0)
     (newRequests world0 (snd (putMultipart flakyClient demoEnv ''big.bin'' twoChunkBody demoOptions world0)))
     (Some (ApiError (NewUnknownError 503 ''Service Unavailable'')))"
    using first by (simp add: res errOf_def)
  have uploads: "map Body [r \<leftarrow> newRequests world0
                    (snd (putMultipart mpuClient demoEnv ''big.bin'' failingBody demoOptions world0)).
               Header r ''X-MPU-Action'' = Some ''upload''] = [Raw [1, 2, 3] EOF]"
    "map (\<lambda>r. Header r ''X-MPU-Action'')
     (newRequests world0 (snd (putMultipart mpuClient demoEnv ''big.bin'' failingBody demoOptions world0))) =
     [Some ''create'', Some ''upload'']"
    using fourth by (simp_all add: chs)
  show ?thesis
    using res trace stops fails ok third chs uploads by simp
qed

section \<open>Put\<close>

text \<open>
  C1, as the spec states it, fails in both halves. A body of five bytes put to the empty
  pathname sends no request: \<^verbatim>\<open>Put\<close> returns the invalid-input error first. And a body
  whose \<^verbatim>\<open>Size()\<close> exceeds the threshold but which has no bytes left to read goes through
  the multipart coordinator with a create and a complete request and no upload between
  them.
\<close>

theorem Put_request_count_counterexample:
  "bodySize smallBody \<le> int MultipartThreshold \<and>
   Put (demoClient 200 ''stored'') demoEnv [] smallBody demoOptions world0 =
     (Inl (ApiError (NewInvalidInputError ''pathname'')), world0) \<and>
   sent world0 = [] \<and>
   bodySize drainedBody > int MultipartThreshold \<and>
   fst (Put mpuClient demoEnv ''big.bin'' drainedBody demoOptions world0) =
     Inr (zeroPutResult\<lparr>ResultURL := ''https://store/a''\<rparr>) \<and>
   map (\<lambda>r. (Method r, Header r ''X-MPU-Action''))
     (sent (snd (Put mpuClient demoEnv ''big.bin'' drainedBody demoOptions world0))) =
     [(''POST'', Some ''create''), (''POST'', Some ''complete'')]"
  by (simp add: Put_def bodySize_def run_defs)

text \<open>
  C1, amended, for a pathname that is not empty. The size of a body is what \<^verbatim>\<open>Put\<close>
  finds: \<^verbatim>\<open>Size()\<close>, else the end offset found by seeking, else \<open>-1\<close>. When that size
  is at most the threshold, \<^verbatim>\<open>Put\<close> sends exactly one request, a PUT to the pathname with
  the whole body and no multipart action, if a token resolves, and no request and the
  not-authenticated error if none does. When that size exceeds the threshold, every
  request goes to \<^verbatim>\<open>/mpu\<close> with the action create, upload or complete (so none is a
  single-shot PUT), the first is the create request, and when the call succeeds the
  requests are the create request, one upload for each chunk that is read (none when the
  reader has no bytes left), and the complete request.
\<close>

theorem Put_single_or_multipart:
  assumes path: "pathname \<noteq> []"
    and run: "Put c env pathname body options w = (res, w')"
  shows "(bodySize body \<le> int MultipartThreshold \<longrightarrow>
            (if resolvedToken c env ''put'' pathname = []
             then newRequests w w' = [] \<and> res = Inl (ApiError ErrNotAuthenticated)
             else length (newRequests w w') = 1 \<and>
                  Method (hd (newRequests w w')) = ''PUT'' \<and>
                  URL (hd (newRequests w w')) = getAPIURL c pathname \<and>
                  Body (hd (newRequests w w')) = Raw (rdData body) (rdEnd body) \<and>
                  Header (hd (newRequests w w')) ''X-MPU-Action'' = None)) \<and>
         (bodySize body > int MultipartThreshold \<longrightarrow>
            newRequests w w' \<noteq> [] \<and>
            Header (hd (newRequests w w')) ''X-MPU-Action'' = Some ''create'' \<and>
            (\<forall>r\<in>set (newRequests w w').
               URL r = getAPIURL c ''/mpu'' \<and>
               (Header r ''X-MPU-Action'' = Some ''create'' \<or>
                Header r ''X-MPU-Action'' = Some ''upload'' \<or>
                Header r ''X-MPU-Action'' = Some ''complete'')) \<and>
            (\<forall>result. res = Inr result \<longrightarrow>
               map (\<lambda>r. Header r ''X-MPU-Action'') (newRequests w w') =
                 Some ''create'' #
                 replicate (length (chunks MultipartThreshold (rdData body))) (Some ''upload'') @
                 [Some ''complete'']))"
proof (cases "bodySize body \<le> int MultipartThreshold")
  case True
  let ?req = "addAPIVersionHeader c
     (NewRequest ''PUT'' (getAPIURL c pathname) (Raw (rdData body) (rdEnd body)))"
  obtain e req w1 where auth: "addAuthorizationHeader c env ?req ''put'' pathname w = (e, req, w1)"
    by (cases "addAuthorizationHeader c env ?req ''put'' pathname w") auto
  note err = addAuthorizationHeader_error [OF auth]
  have w1: "sent w1 = sent w"
    using addAuthorizationHeader_world [OF auth] by simp
  show ?thesis
  proof (cases "resolvedToken c env ''put'' pathname = []")
    case no_token: True
    then have "e = Some ErrNotAuthenticated"
      using err by auto
    then have "res = Inl (ApiError ErrNotAuthenticated)" "w' = w1"
      using run path True auth by (simp_all add: Put_def Let_def)
    then show ?thesis
      using True no_token w1 by (simp add: newRequests_def)
  next
    case token: False
    then have e: "e = None"
      using err by auto
    let ?r = "setPutHeaders options req"
    have "w' = w1\<lparr>sent := sent w1 @ [?r]\<rparr>"
      using run path True auth e
      by (auto simp: Put_def Let_def Do_def split: sum.splits if_splits prod.splits option.splits)
    then have new: "newRequests w w' = [?r]"
      using w1 by (simp add: newRequests_def)
    have "Method ?r = ''PUT''" "URL ?r = getAPIURL c pathname"
      "Body ?r = Raw (rdData body) (rdEnd body)" "Header ?r ''X-MPU-Action'' = None"
      using addAuthorizationHeader_request [OF auth]
      by (simp_all add: setPutHeaders_request addAPIVersionHeader_def Header_Set_def NewRequest_def)
    then show ?thesis
      using True token by (simp add: new)
  qed
next
  case False
  then have big: "bodySize body > int MultipartThreshold"
    by simp
  then have mp: "putMultipart c env pathname body options w = (res, w')"
    using run path by (simp add: Put_def)
  let ?new = "newRequests w w'"
  have "?new \<noteq> [] \<and>
        Header (hd ?new) ''X-MPU-Action'' = Some ''create'' \<and>
        (\<forall>r\<in>set ?new.
           URL r = getAPIURL c ''/mpu'' \<and>
           (Header r ''X-MPU-Action'' = Some ''create'' \<or>
            Header r ''X-MPU-Action'' = Some ''upload'' \<or>
            Header r ''X-MPU-Action'' = Some ''complete'')) \<and>
        (\<forall>result. res = Inr result \<longrightarrow>
           map (\<lambda>r. Header r ''X-MPU-Action'') ?new =
             Some ''create'' #
             replicate (length (chunks MultipartThreshold (rdData body))) (Some ''upload'') @
             [Some ''complete''])"
    using mp
  proof (cases rule: putMultipart_cases)
    case (createFailed creq e)
    have new: "?new = [creq]"
      using createFailed(2) by (rule newRequests_append)
    show ?thesis
      using createFailed(1,3) by (simp add: new isCreateRequest_def)
  next
    case (uploadFailed creq w1 resp e)
    note loop = uploadParts_new [OF uploadFailed(5)]
    have new: "?new = creq # newRequests w1 w'"
      using uploadFailed(2) loop(1) by (rule newRequests_Cons)
    have "\<forall>r\<in>set (newRequests w1 w').
            URL r = getAPIURL c ''/mpu'' \<and> Header r ''X-MPU-Action'' = Some ''upload''"
      using part_upload_action [OF loop(3)] by blast
    then show ?thesis
      using uploadFailed(1,6) by (auto simp: new isCreateRequest_def)
  next
    case (completed creq w1 resp parts w2 kreq)
    note loop = uploadParts_new [OF completed(5)]
    have "sent w' = sent w @ (creq # newRequests w1 w2 @ [kreq])"
      using completed(2,7) loop(1) by simp
    then have new: "?new = creq # newRequests w1 w2 @ [kreq]"
      by (rule newRequests_append)
    have ups: "\<forall>r\<in>set (newRequests w1 w2).
            URL r = getAPIURL c ''/mpu'' \<and> Header r ''X-MPU-Action'' = Some ''upload''"
      using part_upload_action [OF loop(3)] by blast
    then have "map (\<lambda>r. Header r ''X-MPU-Action'') (newRequests w1 w2) =
               replicate (length (newRequests w1 w2)) (Some ''upload'')"
      by (simp add: map_replicate_const [symmetric] cong: map_cong)
    then have "map (\<lambda>r. Header r ''X-MPU-Action'') ?new =
             Some ''create'' #
             replicate (length (chunks MultipartThreshold (rdData body))) (Some ''upload'') @
             [Some ''complete'']"
      using completed(1,6) loop(5) by (simp add: new isCreateRequest_def isCompleteRequest_def)
    then show ?thesis
      using ups completed(1,6) by (auto simp: new isCreateRequest_def isCompleteRequest_def)
  qed
  then show ?thesis
    using big by simp
qed


theorem Put_single_or_multipart_witness:
  "''a.txt'' \<noteq> [] \<and> bodySize smallBody \<le> int MultipartThreshold \<and>
   resolvedToken (demoClient 200 ''stored'') demoEnv ''put'' ''a.txt'' = ''secret'' \<and>
   map (\<lambda>r. (Method r, URL r, Header r ''X-MPU-Action'', Body r))
     (newRequests world0
        (snd (Put (demoClient 200 ''stored'') demoEnv ''a.txt'' smallBody demoOptions world0))) =
     [(''PUT'', getAPIURL (demoClient 200 ''stored'') ''a.txt'', None, Raw [1, 2, 3, 4, 5] EOF)] \<and>
   resolvedToken (demoClient 200 ''stored'') (demoEnv\<lparr>BLOB_READ_WRITE_TOKEN := []\<rparr>) ''put'' ''a.txt'' = [] \<and>
   Put (demoClient 200 ''stored'') (demoEnv\<lparr>BLOB_READ_WRITE_TOKEN := []\<rparr>) ''a.txt'' smallBody
       demoOptions world0 = (Inl (ApiError ErrNotAuthenticated), world0) \<and>
   ''big.bin'' \<noteq> [] \<and> bodySize twoChunkBody > int MultipartThreshold \<and>
   fst (Put mpuClient demoEnv ''big.bin'' twoChunkBody demoOptions world0) =
     Inr (zeroPutResult\<lparr>ResultURL := ''https://store/a''\<rparr>) \<and>
   map (\<lambda>r. Header r ''X-MPU-Action'')
     (newRequests world0 (snd (Put mpuClient demoEnv ''big.bin'' twoChunkBody demoOptions world0))) =
     [Some ''create'', Some ''upload'', Some ''upload'', Some ''complete'']"
proof -
  have run1: "Put (demoClient 200 ''stored'') demoEnv ''a.txt'' smallBody demoOptions world0 =
     (fst (Put (demoClient 200 ''stored'') demoEnv ''a.txt'' smallBody demoOptions world0),
      snd (Put (demoClient 200 ''stored'') demoEnv ''a.txt'' smallBody demoOptions world0))"
    by simp
  have run2: "Put mpuClient demoEnv ''big.bin'' twoChunkBody demoOptions world0 =
     (fst (Put mpuClient demoEnv ''big.bin'' twoChunkBody demoOptions world0),
      snd (Put mpuClient demoEnv ''big.bin'' twoChunkBody demoOptions world0))"
    by simp
  have path: "''a.txt'' \<noteq> []" "''big.bin'' \<noteq> []"
    by simp_all
  have sizes: "bodySize smallBody \<le> int MultipartThreshold"
    "bodySize twoChunkBody > int MultipartThreshold"
    by (simp_all add: bodySize_def smallBody_def twoChunkBody_def MultipartThreshold_def)
  have tokens: "resolvedToken (demoClient 200 ''stored'') demoEnv ''put'' ''a.txt'' = ''secret''"
    "resolvedToken (demoClient 200 ''stored'') (demoEnv\<lparr>BLOB_READ_WRITE_TOKEN := []\<rparr>) ''put'' ''a.txt'' = []"
    by (simp_all add: resolvedToken_def demoClient_def demoEnv_def)
  have small: "map (\<lambda>r. (Method r, URL r, Header r ''X-MPU-Action'', Body r))
     (newRequests world0
        (snd (Put (demoClient 200 ''stored'') demoEnv ''a.txt'' smallBody demoOptions world0))) =
     [(''PUT'', getAPIURL (demoClient 200 ''stored'') ''a.txt'', None, Raw [1, 2, 3, 4, 5] EOF)]"
    "Put (demoClient 200 ''stored'') (demoEnv\<lparr>BLOB_READ_WRITE_TOKEN := []\<rparr>) ''a.txt'' smallBody
       demoOptions world0 = (Inl (ApiError ErrNotAuthenticated), world0)"
    by (simp_all add: Put_def bodySize_def newRequests_def run_defs)
  have big: "fst (Put mpuClient demoEnv ''big.bin'' twoChunkBody demoOptions world0) =
     Inr (zeroPutResult\<lparr>ResultURL := ''https://store/a''\<rparr>)"
    "map (\<lambda>r. Header r ''X-MPU-Action'')
     (newRequests world0 (snd (Put mpuClient demoEnv ''big.bin'' twoChunkBody demoOptions world0))) =
     [Some ''create'', Some ''upload'', Some ''upload'', Some ''complete'']"
    by (simp_all add: Put_def bodySize_def newRequests_def run_defs)
  from Put_single_or_multipart [OF path(1) run1] Put_single_or_multipart [OF path(2) run2]
  have "length (newRequests world0
          (snd (Put (demoClient 200 ''stored'') demoEnv ''a.txt'' smallBody demoOptions world0))) = 1"
    using sizes tokens by simp
  then show ?thesis
    using path sizes tokens small big by simp
qed

section \<open>Decode failures in the multipart coordinator\<close>

text \<open>
  C10, as the spec states it, fails for a body that is JSON with a value of the wrong
  type: \<^verbatim>\<open>encoding/json\<close> returns an error for it and still decodes the other fields.
  For a create response with a number as the key and a complete response with a number
  as the pathname, both decodes fail, and yet the upload carries the upload identifier
  of the response, not the empty one, and the result returned holds the URL of the
  response: it is not the zero value.
\<close>

theorem multipart_partial_decode_counterexample:
  "snd (decodeCreateResponse demoEnv ''created-with-a-number-as-key'') =
     Some ''cannot unmarshal number into field key'' \<and>
   snd (decodePutResult demoEnv ''stored-with-a-number-as-pathname'') =
     Some ''cannot unmarshal number into field pathname'' \<and>
   map (\<lambda>r. (Header r ''X-MPU-Action'', Header r ''X-MPU-Upload-Id'', Header r ''X-MPU-Key''))
     (sent (snd (putMultipart mistypedClient demoEnv ''a.txt'' smallBody demoOptions world0))) =
     [(Some ''create'', None, None), (Some ''upload'', Some ''u1'', Some []),
      (Some ''complete'', None, None)] \<and>
   fst (putMultipart mistypedClient demoEnv ''a.txt'' smallBody demoOptions world0) =
     Inr (zeroPutResult\<lparr>ResultURL := ''https://store/a''\<rparr>) \<and>
   zeroPutResult\<lparr>ResultURL := ''https://store/a''\<rparr> \<noteq> zeroPutResult"
  by (simp add: run_defs mistypedClient_def)

text \<open>
  C10, amended: in a multipart upload the error of decoding a response with status 200 is
  dropped, and the coordinator goes on with the struct as the decoder left it, whether
  the decoder returned an error or not. After the create response, with bytes to read the
  second request is an upload, and with no bytes to read and a stream that ends well it
  is the complete request; every upload carries the upload identifier and the key the
  decoder left, and so does the complete request: both are empty when the body is no
  JSON at all, and a field decoded before a type error is kept. After the complete
  response, the call returns the result as the decoder left it, the zero value when the
  body is no JSON at all, and no error.
\<close>

theorem multipart_ignores_decode_failure:
  assumes run: "putMultipart c env pathname body options w = (res, w')"
  shows "(\<forall>resp cr eo.
            httpClient c (sent w) (hd (newRequests w w')) = Inr resp \<and> StatusCode resp = 200 \<and>
            decodeCreateResponse env (RespBody resp) = (cr, eo) \<longrightarrow>
            (rdData body \<noteq> [] \<longrightarrow>
               2 \<le> length (newRequests w w') \<and>
               Header (newRequests w w' ! 1) ''X-MPU-Action'' = Some ''upload'') \<and>
            (rdData body = [] \<and> (rdEnd body = EOF \<or> rdEnd body = ErrUnexpectedEOF) \<longrightarrow>
               length (newRequests w w') = 2 \<and>
               Header (newRequests w w' ! 1) ''X-MPU-Action'' = Some ''complete'') \<and>
            (\<forall>r\<in>set (newRequests w w').
               Header r ''X-MPU-Action'' = Some ''upload'' \<longrightarrow>
               Header r ''X-MPU-Upload-Id'' = Some (UploadID cr) \<and>
               Header r ''X-MPU-Key'' = Some (Key cr)) \<and>
            (\<forall>r\<in>set (newRequests w w').
               Header r ''X-MPU-Action'' = Some ''complete'' \<longrightarrow>
               (\<exists>ps. Body r = JsonComplete
                  \<lparr>CompleteUploadID = UploadID cr, CompleteKey = Key cr, Parts = ps\<rparr>))) \<and>
         (\<forall>resp result eo.
            Header (last (sent w')) ''X-MPU-Action'' = Some ''complete'' \<and>
            httpClient c (butlast (sent w')) (last (sent w')) = Inr resp \<and> StatusCode resp = 200 \<and>
            decodePutResult env (RespBody resp) = (result, eo) \<longrightarrow>
            res = Inr result)"
  using run
proof (cases rule: putMultipart_cases)
  case (createFailed creq e)
  have new: "newRequests w w' = [creq]"
    using createFailed(2) by (rule newRequests_append)
  show ?thesis
    using createFailed(1,2,5) by (auto simp: new isCreateRequest_def)
next
  case (uploadFailed creq w1 resp0 e)
  let ?cr = "fst (decodeCreateResponse env (RespBody resp0))"
  note loop = uploadParts_new [OF uploadFailed(5)]
  have new: "newRequests w w' = creq # newRequests w1 w'"
    using uploadFailed(2) loop(1) by (rule newRequests_Cons)
  have ups: "\<forall>r\<in>set (newRequests w1 w').
      Header r ''X-MPU-Action'' = Some ''upload'' \<and>
      Header r ''X-MPU-Upload-Id'' = Some (UploadID ?cr) \<and> Header r ''X-MPU-Key'' = Some (Key ?cr)"
    using part_upload_action [OF loop(3)] by blast
  have first: "Header (newRequests w1 w' ! 0) ''X-MPU-Action'' = Some ''upload''"
    if "rdData body \<noteq> []"
    using that loop(6) ups by simp
  have len: "Suc 0 \<le> length (newRequests w1 w')" if "rdData body \<noteq> []"
    using that loop(6) by (simp add: Suc_le_eq)
  have ends_badly: "\<not> (rdData body = [] \<and> (rdEnd body = EOF \<or> rdEnd body = ErrUnexpectedEOF))"
    using uploadFailed(5) by (auto simp: uploadParts_empty)
  have "sent w' = sent w @ creq # newRequests w1 w'"
    using uploadFailed(2) loop(1) by simp
  then have "last (sent w') \<in> set (creq # newRequests w1 w')"
    by (metis last_appendR last_in_set list.distinct(1))
  then have not_complete: "Header (last (sent w')) ''X-MPU-Action'' \<noteq> Some ''complete''"
    using ups uploadFailed(1) by (auto simp: isCreateRequest_def)
  have part1: "(rdData body \<noteq> [] \<longrightarrow>
               2 \<le> length (newRequests w w') \<and>
               Header (newRequests w w' ! 1) ''X-MPU-Action'' = Some ''upload'') \<and>
            (rdData body = [] \<and> (rdEnd body = EOF \<or> rdEnd body = ErrUnexpectedEOF) \<longrightarrow>
               length (newRequests w w') = 2 \<and>
               Header (newRequests w w' ! 1) ''X-MPU-Action'' = Some ''complete'') \<and>
            (\<forall>r\<in>set (newRequests w w').
               Header r ''X-MPU-Action'' = Some ''upload'' \<longrightarrow>
               Header r ''X-MPU-Upload-Id'' = Some (UploadID cr) \<and>
               Header r ''X-MPU-Key'' = Some (Key cr)) \<and>
            (\<forall>r\<in>set (newRequests w w').
               Header r ''X-MPU-Action'' = Some ''complete'' \<longrightarrow>
               (\<exists>ps. Body r = JsonComplete
                  \<lparr>CompleteUploadID = UploadID cr, CompleteKey = Key cr, Parts = ps\<rparr>))"
    if "httpClient c (sent w) (hd (newRequests w w')) = Inr resp" "StatusCode resp = 200"
      "decodeCreateResponse env (RespBody resp) = (cr, eo)" for resp cr eo
  proof -
    have "resp = resp0"
      using that(1) uploadFailed(3) by (simp add: new)
    then have cr: "?cr = cr"
      using that(3) by simp
    show ?thesis
      using uploadFailed(1) ups first len ends_badly
      by (auto simp: new cr [symmetric] isCreateRequest_def)
  qed
  show ?thesis
    using part1 not_complete by blast
next
  case (completed creq w1 resp0 parts w2 kreq)
  let ?cr = "fst (decodeCreateResponse env (RespBody resp0))"
  note loop = uploadParts_new [OF completed(5)]
  have "sent w' = sent w @ (creq # newRequests w1 w2 @ [kreq])"
    using completed(2,7) loop(1) by simp
  then have new: "newRequests w w' = creq # newRequests w1 w2 @ [kreq]"
    by (rule newRequests_append)
  have ups: "\<forall>r\<in>set (newRequests w1 w2).
      Header r ''X-MPU-Action'' = Some ''upload'' \<and>
      Header r ''X-MPU-Upload-Id'' = Some (UploadID ?cr) \<and> Header r ''X-MPU-Key'' = Some (Key ?cr)"
    using part_upload_action [OF loop(3)] by blast
  have first: "Header ((newRequests w1 w2 @ [kreq]) ! 0) ''X-MPU-Action'' = Some ''upload''"
    if "rdData body \<noteq> []"
    using that loop(6) ups by (simp add: nth_append)
  have none: "newRequests w1 w2 = []" if "rdData body = []"
    using that loop(2) by (simp add: chunks_Nil)
  have last: "last (sent w') = kreq" "butlast (sent w') = sent w2"
    using completed(7) by simp_all
  have part1: "(rdData body \<noteq> [] \<longrightarrow>
               2 \<le> length (newRequests w w') \<and>
               Header (newRequests w w' ! 1) ''X-MPU-Action'' = Some ''upload'') \<and>
            (rdData body = [] \<and> (rdEnd body = EOF \<or> rdEnd body = ErrUnexpectedEOF) \<longrightarrow>
               length (newRequests w w') = 2 \<and>
               Header (newRequests w w' ! 1) ''X-MPU-Action'' = Some ''complete'') \<and>
            (\<forall>r\<in>set (newRequests w w').
               Header r ''X-MPU-Action'' = Some ''upload'' \<longrightarrow>
               Header r ''X-MPU-Upload-Id'' = Some (UploadID cr) \<and>
               Header r ''X-MPU-Key'' = Some (Key cr)) \<and>
            (\<forall>r\<in>set (newRequests w w').
               Header r ''X-MPU-Action'' = Some ''complete'' \<longrightarrow>
               (\<exists>ps. Body r = JsonComplete
                  \<lparr>CompleteUploadID = UploadID cr, CompleteKey = Key cr, Parts = ps\<rparr>))"
    if "httpClient c (sent w) (hd (newRequests w w')) = Inr resp" "StatusCode resp = 200"
      "decodeCreateResponse env (RespBody resp) = (cr, eo)" for resp cr eo
  proof -
    have "resp = resp0"
      using that(1) completed(3) by (simp add: new)
    then have cr: "?cr = cr"
      using that(3) by simp
    show ?thesis
      using completed(1,6) ups first none
      by (auto simp: new cr [symmetric] isCreateRequest_def isCompleteRequest_def)
  qed
  have part2: "res = Inr result"
    if "httpClient c (butlast (sent w')) (last (sent w')) = Inr resp" "StatusCode resp = 200"
      "decodePutResult env (RespBody resp) = (result, eo)" for resp result eo
    using that by (simp add: last completed(8))
  show ?thesis
    using part1 part2 by blast
qed

theorem multipart_ignores_decode_failure_witness:
  "httpClient (demoClient 200 ''<html>'') (sent world0)
     (hd (newRequests world0
        (snd (putMultipart (demoClient 200 ''<html>'') demoEnv ''a.txt'' smallBody demoOptions world0)))) =
     Inr (respond 200 ''<html>'') \<and>
   decodeCreateResponse demoEnv ''<html>'' = (zeroCreateResponse, Some ''invalid character'') \<and>
   decodePutResult demoEnv ''<html>'' = (zeroPutResult, Some ''invalid character'') \<and>
   map (\<lambda>r. (Header r ''X-MPU-Action'', Header r ''X-MPU-Upload-Id'', Header r ''X-MPU-Key'', Body r))
     (newRequests world0
        (snd (putMultipart (demoClient 200 ''<html>'') demoEnv ''a.txt'' smallBody demoOptions world0))) =
     [(Some ''create'', None, None, NoBody),
      (Some ''upload'', Some [], Some [], Raw [1, 2, 3, 4, 5] EOF),
      (Some ''complete'', None, None,
       JsonComplete \<lparr>CompleteUploadID = [], CompleteKey = [],
         Parts = [\<lparr>ETag = ''tag'', PartNumber = 1\<rparr>]\<rparr>)] \<and>
   fst (putMultipart (demoClient 200 ''<html>'') demoEnv ''a.txt'' smallBody demoOptions world0) =
     Inr zeroPutResult \<and>
   rdData drainedBody = [] \<and> rdEnd drainedBody = EOF \<and>
   map (\<lambda>r. Header r ''X-MPU-Action'')
     (newRequests world0
        (snd (putMultipart (demoClient 200 ''<html>'') demoEnv ''a.txt'' drainedBody demoOptions world0))) =
     [Some ''create'', Some ''complete'']"
proof -
  have run: "putMultipart (demoClient 200 ''<html>'') demoEnv ''a.txt'' smallBody demoOptions world0 =
     (fst (putMultipart (demoClient 200 ''<html>'') demoEnv ''a.txt'' smallBody demoOptions world0),
      snd (putMultipart (demoClient 200 ''<html>'') demoEnv ''a.txt'' smallBody demoOptions world0))"
    by simp
  have server: "httpClient (demoClient 200 ''<html>'') h r = Inr (respond 200 ''<html>'')" for h r
    by (simp add: demoClient_def)
  have status: "StatusCode (respond 200 ''<html>'') = 200" "RespBody (respond 200 ''<html>'') = ''<html>''"
    by (simp_all add: respond_def)
  have decode: "decodeCreateResponse demoEnv ''<html>'' = (zeroCreateResponse, Some ''invalid character'')"
    "decodePutResult demoEnv ''<html>'' = (zeroPutResult, Some ''invalid character'')"
    by (simp_all add: demoEnv_def)
  have trace: "map (\<lambda>r. (Header r ''X-MPU-Action'', Header r ''X-MPU-Upload-Id'', Header r ''X-MPU-Key'', Body r))
     (newRequests world0
        (snd (putMultipart (demoClient 200 ''<html>'') demoEnv ''a.txt'' smallBody demoOptions world0))) =
     [(Some ''create'', None, None, NoBody),
      (Some ''upload'', Some [], Some [], Raw [1, 2, 3, 4, 5] EOF),
      (Some ''complete'', None, None,
       JsonComplete \<lparr>CompleteUploadID = [], CompleteKey = [],
         Parts = [\<lparr>ETag = ''tag'', PartNumber = 1\<rparr>]\<rparr>)]"
    by (simp add: newRequests_def run_defs)
  have drained: "rdData drainedBody = []" "rdEnd drainedBody = EOF"
    "map (\<lambda>r. Header r ''X-MPU-Action'')
     (newRequests world0
        (snd (putMultipart (demoClient 200 ''<html>'') demoEnv ''a.txt'' drainedBody demoOptions world0))) =
     [Some ''create'', Some ''complete'']"
    by (simp_all add: newRequests_def run_defs)
  have last: "Header (last (sent
      (snd (putMultipart (demoClient 200 ''<html>'') demoEnv ''a.txt'' smallBody demoOptions world0))))
      ''X-MPU-Action'' = Some ''complete''"
    by (simp add: run_defs)
  have "fst (putMultipart (demoClient 200 ''<html>'') demoEnv ''a.txt'' smallBody demoOptions world0) =
     Inr zeroPutResult"
    by (rule multipart_ignores_decode_failure [OF run, THEN conjunct2,
          THEN spec [of _ "respond 200 ''<html>''"], THEN spec [of _ zeroPutResult],
          THEN spec [of _ "Some ''invalid character''"], THEN mp])
       (simp add: server status decode last)
  then show ?thesis
    using server decode trace drained by simp
qed

section \<open>Client tokens\<close>

text \<open>
  With an expiry that is not zero, \<^verbatim>\<open>GenerateClientToken\<close> does not read the clock: the
  token is the same at any time, and it is the hexadecimal payload, a dot, and the
  hexadecimal HMAC of the payload under the secret. Whether two payloads that differ in one
  byte always have different HMAC-SHA-256 values is a property of the hash function that
  this development does not decide.
\<close>

lemma GenerateClientToken_ignores_clock:
  "ExpiresAt options \<noteq> 0 \<Longrightarrow>
   GenerateClientToken (lib\<lparr>timeNowUnix := t1\<rparr>) token options =
   GenerateClientToken (lib\<lparr>timeNowUnix := t2\<rparr>) token options"
  by (simp add: GenerateClientToken_def Let_def split: sum.splits)

lemma GenerateClientToken_form:
  "ExpiresAt options \<noteq> 0 \<Longrightarrow> jsonMarshal lib options = Inr payload \<Longrightarrow>
   GenerateClientToken lib token options =
     Inr (EncodeToString payload @ ''.'' @ EncodeToString (hmacSHA256 lib token payload))"
  by (simp add: GenerateClientToken_def Let_def)

end
